theory Spec2Isabelle
  imports Main "HOL-Library.AList"
begin

section \<open>Conventions of the embedding\<close>

text \<open>
  The scan orchestration engine is Python.  Its unbounded integers are \<^typ>\<open>int\<close>,
  its \<^verbatim>\<open>str\<close> values are \<^typ>\<open>string\<close> (text outside ASCII is held as its UTF-8
  bytes, which keeps equality, concatenation and splitting at an ASCII separator
  as they are in Python), a \<^verbatim>\<open>datetime\<close> is the \<^typ>\<open>int\<close> count of microseconds since \<^verbatim>\<open>datetime.min\<close>,
  \<^verbatim>\<open>Optional[T]\<close> is \<^typ>\<open>'a option\<close>, and every mutated object is passed in and
  returned.

  Functions of the Python standard library whose result depends on Unicode
  tables, on a digest algorithm or on the calendar are not re-implemented: they
  are the fields of a record that every operation using one takes as its first
  argument, so each theorem holds for whatever these functions compute.
\<close>

record pylib =
  sha256_hexdigest :: "string \<Rightarrow> string"       \<comment> \<open>\<^verbatim>\<open>hashlib.sha256(s.encode()).hexdigest()\<close>\<close>
  py_int :: "string \<Rightarrow> int option"               \<comment> \<open>\<^verbatim>\<open>int(s)\<close>; \<open>None\<close> is \<^verbatim>\<open>ValueError\<close>\<close>
  py_strip :: "string \<Rightarrow> string"                 \<comment> \<open>\<^verbatim>\<open>s.strip()\<close>\<close>
  py_lower :: "string \<Rightarrow> string"                 \<comment> \<open>\<^verbatim>\<open>s.lower()\<close>\<close>
  strptime_weekday :: "string \<Rightarrow> nat option"
    \<comment> \<open>\<^verbatim>\<open>datetime.strptime(s, "%Y-%m-%d").weekday()\<close>; \<open>None\<close> is \<^verbatim>\<open>ValueError\<close>\<close>

datatype py_error = IndexError | OverflowError

text \<open>\<^verbatim>\<open>str(n)\<close> for an integer: decimal digits, a minus sign when negative.\<close>

definition digit_char :: "nat \<Rightarrow> char" where
  "digit_char d = ''0123456789'' ! d"

fun str_nat :: "nat \<Rightarrow> string" where
  "str_nat n = (if n < 10 then [digit_char n] else str_nat (n div 10) @ [digit_char (n mod 10)])"

declare str_nat.simps [simp del]

definition str_int :: "int \<Rightarrow> string" where
  "str_int i = (if i < 0 then CHR ''-'' # str_nat (nat (- i)) else str_nat (nat i))"

text \<open>
  \<^verbatim>\<open>datetime\<close> values run from \<^verbatim>\<open>datetime.min\<close> (year 1) to \<^verbatim>\<open>datetime.max\<close> (the
  last microsecond of year 9999), which is 3652059 days.
  \<^verbatim>\<open>now + timedelta(minutes=m)\<close> raises \<^verbatim>\<open>OverflowError\<close> when the sum leaves this
  range; a \<^verbatim>\<open>timedelta\<close> that cannot be built (more than 999999999 days) raises
  \<^verbatim>\<open>OverflowError\<close> as well, and for a \<open>now\<close> in the range its sum is outside.
\<close>

definition datetime_end :: int where
  "datetime_end = 3652059 * 86400 * 1000000"

definition add_minutes :: "int \<Rightarrow> int \<Rightarrow> py_error + int" where
  "add_minutes now m =
    (let t = now + m * 60000000
     in if 0 \<le> t \<and> t < datetime_end then Inr t else Inl OverflowError)"

text \<open>
  The characters of a string: \<^verbatim>\<open>len\<close>, indexing and slicing count characters,
  and a character outside ASCII is a lead byte followed by continuation bytes
  (\<open>0x80\<close> to \<open>0xBF\<close>).
\<close>

definition is_continuation :: "char \<Rightarrow> bool" where
  "is_continuation c = ((128::nat) \<le> of_char c \<and> (of_char c :: nat) < 192)"

fun utf8_chars :: "string \<Rightarrow> string list" where
  "utf8_chars [] = []"
| "utf8_chars (c # cs) =
     (case utf8_chars cs of
        (d # w) # ws \<Rightarrow>
          if is_continuation d then (c # d # w) # ws else [c] # (d # w) # ws
      | _ \<Rightarrow> [[c]])"

section \<open>Screen classifier (\<^verbatim>\<open>scanner/screen_detector.py\<close>)\<close>

datatype ScreenType =
    UNKNOWN | LOGIN | OTP_VERIFICATION | DASHBOARD | APPOINTMENT_SELECTION
  | DATE_SELECTION | TIME_SELECTION | CONFIRMATION | SUCCESS | ERROR
  | CAPTCHA | MAINTENANCE | BLOCKED | NO_APPOINTMENT

record ScreenInfo =
  screen_type :: ScreenType
  url :: string
  title :: string
  has_captcha :: bool
  has_error :: bool
  screen_error_message :: "string option"
  available_actions :: "string list"
  metadata :: "(string \<times> string option list) list"

text \<open>
  \<^verbatim>\<open>get_next_action\<close> builds a dictionary of eight entries and returns
  \<^verbatim>\<open>action_map.get(screen_info.screen_type)\<close>: the entry, or \<^verbatim>\<open>None\<close> for a key
  that is not in the dictionary.
\<close>

definition action_map :: "(ScreenType \<times> string) list" where
  "action_map =
    [(LOGIN, ''login''),
     (OTP_VERIFICATION, ''enter_otp''),
     (DASHBOARD, ''navigate_to_appointment''),
     (DATE_SELECTION, ''select_date''),
     (TIME_SELECTION, ''select_time''),
     (CONFIRMATION, ''confirm''),
     (CAPTCHA, ''solve_captcha''),
     (ERROR, ''handle_error'')]"

definition get_next_action :: "ScreenInfo \<Rightarrow> string option" where
  "get_next_action screen_info = map_of action_map (screen_type screen_info)"

definition is_success_state :: "ScreenInfo \<Rightarrow> bool" where
  "is_success_state screen_info = (screen_type screen_info = SUCCESS)"

definition is_error_state :: "ScreenInfo \<Rightarrow> bool" where
  "is_error_state screen_info = (screen_type screen_info \<in> set [ERROR, BLOCKED, MAINTENANCE])"

section \<open>Tenant session registry (\<^verbatim>\<open>core/session_manager.py\<close>)\<close>

datatype ScanStatus =
    IDLE | CHECKING | WAITING_LOGIN | LOGGING_IN | WAITING_OTP | SCANNING
  | PAUSED | SCAN_ERROR | COMPLETED

record CountrySession =
  country_code :: string
  status :: ScanStatus
  current_round :: int
  total_rounds :: int
  current_combination :: int
  total_combinations :: int
  combinations :: "(string \<times> string) list list"
  current_proxy :: "string option"
  start_time :: "int option"
  last_update :: "int option"
  error_message :: "string option"
  appointments_found :: int
  total_checks :: int

text \<open>The dataclass defaults of \<^verbatim>\<open>CountrySession(country_code=...)\<close>.\<close>

definition CountrySession_init :: "string \<Rightarrow> CountrySession" where
  "CountrySession_init code =
    \<lparr>country_code = code, status = IDLE, current_round = 0, total_rounds = 5,
     current_combination = 0, total_combinations = 0, combinations = [],
     current_proxy = None, start_time = None, last_update = None, error_message = None,
     appointments_found = 0, total_checks = 0\<rparr>"

text \<open>
  \<^verbatim>\<open>sessions\<close> is a dictionary in insertion order: an association list.
  \<^verbatim>\<open>login_lock\<close> is an \<^verbatim>\<open>asyncio.Lock\<close>: \<open>True\<close> while some coroutine holds it.
  \<^verbatim>\<open>login_queue\<close> and \<^verbatim>\<open>_login_in_progress\<close> are initialised and never read or
  written again.
\<close>

record SessionManager =
  max_parallel :: int
  sessions :: "(string \<times> CountrySession) list"
  login_queue :: "string list"
  login_lock :: bool
  login_in_progress :: bool

definition SessionManager_init :: "int \<Rightarrow> SessionManager" where
  "SessionManager_init n =
    \<lparr>max_parallel = n, sessions = [], login_queue = [], login_lock = False,
     login_in_progress = False\<rparr>"

definition get_session :: "string \<Rightarrow> SessionManager \<Rightarrow> CountrySession \<times> SessionManager" where
  "get_session code sm =
    (case map_of (sessions sm) code of
       None \<Rightarrow> (CountrySession_init code,
                 sm\<lparr>sessions := sessions sm @ [(code, CountrySession_init code)]\<rparr>)
     | Some s \<Rightarrow> (s, sm))"

text \<open>
  Every mutator starts with \<^verbatim>\<open>session = self.get_session(country_code)\<close> and then
  assigns fields of that object, which is the one stored under the key.
\<close>

definition with_session ::
  "string \<Rightarrow> (CountrySession \<Rightarrow> CountrySession) \<Rightarrow> SessionManager \<Rightarrow> SessionManager" where
  "with_session code f sm =
    (case get_session code sm of
       (s, sm1) \<Rightarrow> sm1\<lparr>sessions := AList.update code (f s) (sessions sm1)\<rparr>)"

definition active_statuses :: "ScanStatus list" where
  "active_statuses = [CHECKING, WAITING_LOGIN, LOGGING_IN, WAITING_OTP, SCANNING]"

definition is_active :: "string \<times> CountrySession \<Rightarrow> bool" where
  "is_active e = (status (snd e) \<in> set active_statuses)"

definition get_active_count :: "SessionManager \<Rightarrow> int" where
  "get_active_count sm = int (length (filter is_active (sessions sm)))"

definition can_start_scan :: "SessionManager \<Rightarrow> bool" where
  "can_start_scan sm = (get_active_count sm < max_parallel sm)"

definition get_active_countries :: "SessionManager \<Rightarrow> string list" where
  "get_active_countries sm = map fst (filter is_active (sessions sm))"

text \<open>
  \<^verbatim>\<open>asyncio.Lock.acquire\<close> takes a free lock without suspending; on a held lock
  the caller is suspended (\<open>None\<close>).  \<^verbatim>\<open>async with\<close> releases the lock when its
  block is left, here by \<^verbatim>\<open>return True\<close>.
\<close>

definition lock_acquire :: "SessionManager \<Rightarrow> SessionManager option" where
  "lock_acquire sm = (if login_lock sm then None else Some (sm\<lparr>login_lock := True\<rparr>))"

definition lock_release :: "SessionManager \<Rightarrow> SessionManager" where
  "lock_release sm = sm\<lparr>login_lock := False\<rparr>"

text \<open>
  \<^verbatim>\<open>request_login\<close>; \<open>t1\<close> and \<open>t2\<close> are the two readings of \<^verbatim>\<open>datetime.now()\<close>.
  The result is \<open>Some True\<close> when the coroutine returns, and \<open>None\<close> when it is
  suspended at the lock, the session already marked \<open>WAITING_LOGIN\<close>.
\<close>

definition request_login ::
  "string \<Rightarrow> int \<Rightarrow> int \<Rightarrow> SessionManager \<Rightarrow> bool option \<times> SessionManager" where
  "request_login code t1 t2 sm =
    (let sm1 = with_session code (\<lambda>s. s\<lparr>status := WAITING_LOGIN, last_update := Some t1\<rparr>) sm
     in case lock_acquire sm1 of
          None \<Rightarrow> (None, sm1)
        | Some sm2 \<Rightarrow>
            (let sm3 = with_session code
                         (\<lambda>s. s\<lparr>status := LOGGING_IN, last_update := Some t2\<rparr>) sm2
             in (Some True, lock_release sm3)))"

definition release_login :: "string \<Rightarrow> int \<Rightarrow> SessionManager \<Rightarrow> SessionManager" where
  "release_login code t sm =
    with_session code
      (\<lambda>s. if status s = LOGGING_IN then s\<lparr>status := SCANNING, last_update := Some t\<rparr> else s) sm"

text \<open>\<^verbatim>\<open>if error:\<close> is false for \<^verbatim>\<open>None\<close> and for the empty string.\<close>

definition update_session_status ::
  "string \<Rightarrow> ScanStatus \<Rightarrow> string option \<Rightarrow> int \<Rightarrow> SessionManager \<Rightarrow> SessionManager" where
  "update_session_status code st err t sm =
    with_session code
      (\<lambda>s. let s1 = s\<lparr>status := st, last_update := Some t\<rparr>
           in (case err of
                 None \<Rightarrow> s1
               | Some e \<Rightarrow> if e = [] then s1 else s1\<lparr>error_message := Some e\<rparr>)) sm"

definition update_scan_progress ::
  "string \<Rightarrow> int \<Rightarrow> int \<Rightarrow> int \<Rightarrow> int \<Rightarrow> SessionManager \<Rightarrow> SessionManager" where
  "update_scan_progress code round_num combination_num total_comb t sm =
    with_session code
      (\<lambda>s. s\<lparr>current_round := round_num, current_combination := combination_num,
             total_combinations := total_comb, total_checks := total_checks s + 1,
             last_update := Some t\<rparr>) sm"

definition set_combinations ::
  "string \<Rightarrow> (string \<times> string) list list \<Rightarrow> SessionManager \<Rightarrow> SessionManager" where
  "set_combinations code cs sm =
    with_session code (\<lambda>s. s\<lparr>combinations := cs, total_combinations := int (length cs)\<rparr>) sm"

definition record_appointment_found :: "string \<Rightarrow> int \<Rightarrow> SessionManager \<Rightarrow> SessionManager" where
  "record_appointment_found code t sm =
    with_session code
      (\<lambda>s. s\<lparr>appointments_found := appointments_found s + 1, last_update := Some t\<rparr>) sm"

text \<open>\<^verbatim>\<open>start_session\<close>: no test of \<^verbatim>\<open>can_start_scan\<close> is made here.\<close>

definition start_session ::
  "string \<Rightarrow> string option \<Rightarrow> int \<Rightarrow> int \<Rightarrow> SessionManager \<Rightarrow> SessionManager" where
  "start_session code proxy t1 t2 sm =
    with_session code
      (\<lambda>s. s\<lparr>status := CHECKING, start_time := Some t1, last_update := Some t2,
             current_round := 0, current_combination := 0, error_message := None,
             current_proxy := proxy\<rparr>) sm"

definition stop_session :: "string \<Rightarrow> int \<Rightarrow> SessionManager \<Rightarrow> SessionManager" where
  "stop_session code t sm =
    with_session code (\<lambda>s. s\<lparr>status := IDLE, last_update := Some t\<rparr>) sm"

definition reset_session :: "string \<Rightarrow> SessionManager \<Rightarrow> SessionManager" where
  "reset_session code sm = sm\<lparr>sessions := AList.delete code (sessions sm)\<rparr>"

text \<open>
  A caller of the registry that follows the admission policy: it starts a
  tenant only after \<^verbatim>\<open>can_start_scan()\<close> has answered true, and may stop any
  tenant at any time.  Both methods are synchronous, so a test followed by the
  start is not interleaved with another tenant's call.
\<close>

datatype session_call = Start string "string option" int int | Stop string int

fun admitted_calls :: "SessionManager \<Rightarrow> session_call list \<Rightarrow> SessionManager" where
  "admitted_calls sm [] = sm"
| "admitted_calls sm (Start code proxy t1 t2 # cs) =
     admitted_calls (if can_start_scan sm then start_session code proxy t1 t2 sm else sm) cs"
| "admitted_calls sm (Stop code t # cs) = admitted_calls (stop_session code t sm) cs"

section \<open>Verification code store (\<^verbatim>\<open>auth/otp_handler.py\<close>)\<close>

datatype OTPChannel = SMS | EMAIL

fun channel_value :: "OTPChannel \<Rightarrow> string" where
  "channel_value SMS = ''sms''"
| "channel_value EMAIL = ''email''"

datatype OTPStatus = PENDING | VERIFIED | EXPIRED | INVALID | MAX_ATTEMPTS_EXCEEDED

record OTPRecord =
  otp_hash :: string
  channel :: OTPChannel
  created_at :: int
  expires_at :: int
  attempts :: int
  verified :: bool

record OTPHandler =
  otp_length :: int
  expiry_minutes :: int
  max_attempts :: int
  otp_store :: "string \<Rightarrow> OTPRecord option"

definition DEFAULT_OTP_LENGTH :: int where "DEFAULT_OTP_LENGTH = 6"
definition DEFAULT_EXPIRY_MINUTES :: int where "DEFAULT_EXPIRY_MINUTES = 5"
definition MAX_VERIFICATION_ATTEMPTS :: int where "MAX_VERIFICATION_ATTEMPTS = 3"

definition OTPHandler_init :: "int \<Rightarrow> int \<Rightarrow> int \<Rightarrow> OTPHandler" where
  "OTPHandler_init len minutes max_att =
    \<lparr>otp_length = len, expiry_minutes = minutes, max_attempts = max_att,
     otp_store = Map.empty\<rparr>"

definition OTPHandler_default :: OTPHandler where
  "OTPHandler_default =
    OTPHandler_init DEFAULT_OTP_LENGTH DEFAULT_EXPIRY_MINUTES MAX_VERIFICATION_ATTEMPTS"

definition hash_otp :: "pylib \<Rightarrow> string \<Rightarrow> string" where
  "hash_otp lib otp = sha256_hexdigest lib otp"

definition get_storage_key :: "string \<Rightarrow> OTPChannel \<Rightarrow> string" where
  "get_storage_key identifier ch = channel_value ch @ '':'' @ identifier"

definition invalidate_otp :: "string \<Rightarrow> OTPHandler \<Rightarrow> OTPHandler" where
  "invalidate_otp storage_key h = h\<lparr>otp_store := (otp_store h)(storage_key := None)\<rparr>"

text \<open>
  \<^verbatim>\<open>_mask_identifier\<close>.  \<^verbatim>\<open>identifier[:2]\<close> and \<^verbatim>\<open>identifier[-4:]\<close> are the first two
  and, the length exceeding 4, the last four characters;
  \<^verbatim>\<open>identifier.split("@", 1)\<close> cuts at the first \<^verbatim>\<open>@\<close>, and \<^verbatim>\<open>local[0]\<close> is the
  first character of the part before it.
\<close>

definition mask_identifier :: "string \<Rightarrow> OTPChannel \<Rightarrow> string" where
  "mask_identifier identifier ch =
    (case ch of
       SMS \<Rightarrow>
         (let chars = utf8_chars identifier
          in if length chars > 4
             then concat (take 2 chars) @ ''***'' @ concat (drop (length chars - 4) chars)
             else ''***'')
     | EMAIL \<Rightarrow>
         if CHR ''@'' \<in> set identifier
         then (let local = utf8_chars (takeWhile (\<lambda>c. c \<noteq> CHR ''@'') identifier);
                   domain = tl (dropWhile (\<lambda>c. c \<noteq> CHR ''@'') identifier)
               in if length local > 1 then concat (take 1 local) @ ''***@'' @ domain
                  else ''***@'' @ domain)
         else ''***'')"

text \<open>
  The dictionary returned by \<^verbatim>\<open>generate_and_send_otp\<close>; \<open>gen_expires_at\<close> is the
  instant that the code formats with \<^verbatim>\<open>isoformat()\<close>.
\<close>

record generate_result =
  gen_status :: string
  gen_channel :: string
  gen_identifier :: string
  gen_expires_at :: int
  gen_delivery_status :: string

text \<open>
  \<^verbatim>\<open>generate_and_send_otp\<close>.  \<open>otp\<close> is the code drawn by \<^verbatim>\<open>_generate_otp\<close> from
  \<^verbatim>\<open>secrets.choice\<close>, \<open>now\<close> the reading of \<^verbatim>\<open>datetime.utcnow()\<close>.  The delivery
  callback answers \<open>None\<close> when it returns and \<open>Some msg\<close> when it raises an
  exception whose text is \<open>msg\<close>.  The expiry is computed before the record is
  stored: when that raises, the call raises with the handler as it was.  The
  result is the exception or the dictionary, and the handler afterwards.
\<close>

definition generate_and_send_otp ::
  "pylib \<Rightarrow> string \<Rightarrow> int \<Rightarrow> (string \<Rightarrow> string \<Rightarrow> OTPChannel \<Rightarrow> string option) option
   \<Rightarrow> string \<Rightarrow> OTPChannel \<Rightarrow> OTPHandler
   \<Rightarrow> (py_error + generate_result) \<times> OTPHandler" where
  "generate_and_send_otp lib otp now send_callback identifier ch h =
    (let hashed = hash_otp lib otp
     in case add_minutes now (expiry_minutes h) of
          Inl e \<Rightarrow> (Inl e, h)
        | Inr expires \<Rightarrow>
            (let storage_key = get_storage_key identifier ch;
                 h1 = h\<lparr>otp_store := (otp_store h)(storage_key \<mapsto>
                        \<lparr>otp_hash = hashed, channel = ch, created_at = now,
                         expires_at = expires, attempts = 0, verified = False\<rparr>)\<rparr>;
                 delivery_status =
                   (case send_callback of
                      None \<Rightarrow> ''pending''
                    | Some send \<Rightarrow>
                        (case send identifier otp ch of
                           None \<Rightarrow> ''sent''
                         | Some msg \<Rightarrow> ''failed: '' @ msg))
             in (Inr \<lparr>gen_status = ''generated'', gen_channel = channel_value ch,
                      gen_identifier = mask_identifier identifier ch,
                      gen_expires_at = expires,
                      gen_delivery_status = delivery_status\<rparr>, h1)))"

text \<open>
  The dictionary returned by \<^verbatim>\<open>verify_otp\<close>; \<open>vr_status\<close> stands for the
  \<^verbatim>\<open>.value\<close> string of the status, and \<open>vr_remaining_attempts\<close> is \<open>None\<close> when the
  key \<^verbatim>\<open>"remaining_attempts"\<close> is absent.
\<close>

record verify_result =
  vr_verified :: bool
  vr_status :: OTPStatus
  vr_message :: string
  vr_remaining_attempts :: "int option"

definition verify_otp ::
  "pylib \<Rightarrow> int \<Rightarrow> string \<Rightarrow> OTPChannel \<Rightarrow> string \<Rightarrow> OTPHandler
   \<Rightarrow> verify_result \<times> OTPHandler" where
  "verify_otp lib now identifier ch otp h =
    (let storage_key = get_storage_key identifier ch
     in case otp_store h storage_key of
          None \<Rightarrow>
            (\<lparr>vr_verified = False, vr_status = INVALID,
              vr_message = ''No OTP found for this identifier'',
              vr_remaining_attempts = None\<rparr>, h)
        | Some rec \<Rightarrow>
            if verified rec then
              (\<lparr>vr_verified = False, vr_status = INVALID,
                vr_message = ''OTP has already been used'',
                vr_remaining_attempts = None\<rparr>, h)
            else if now > expires_at rec then
              (\<lparr>vr_verified = False, vr_status = EXPIRED,
                vr_message = ''OTP has expired'',
                vr_remaining_attempts = None\<rparr>, invalidate_otp storage_key h)
            else if attempts rec \<ge> max_attempts h then
              (\<lparr>vr_verified = False, vr_status = MAX_ATTEMPTS_EXCEEDED,
                vr_message = ''Maximum verification attempts exceeded'',
                vr_remaining_attempts = None\<rparr>, invalidate_otp storage_key h)
            else
              (let rec1 = rec\<lparr>attempts := attempts rec + 1\<rparr>
               in if hash_otp lib otp = otp_hash rec1 then
                    (\<lparr>vr_verified = True, vr_status = VERIFIED,
                      vr_message = ''OTP verified successfully'',
                      vr_remaining_attempts = None\<rparr>,
                     h\<lparr>otp_store := (otp_store h)(storage_key \<mapsto> rec1\<lparr>verified := True\<rparr>)\<rparr>)
                  else
                    (let remaining = max_attempts h - attempts rec1
                     in (\<lparr>vr_verified = False, vr_status = INVALID,
                          vr_message =
                            ''Invalid OTP. '' @ str_int remaining @ '' attempts remaining'',
                          vr_remaining_attempts = Some remaining\<rparr>,
                         h\<lparr>otp_store := (otp_store h)(storage_key \<mapsto> rec1)\<rparr>))))"

text \<open>
  \<^verbatim>\<open>resend_otp\<close> removes the record of the key and then generates: when the
  generation raises, the record stays removed.
\<close>

definition resend_otp ::
  "pylib \<Rightarrow> string \<Rightarrow> int \<Rightarrow> (string \<Rightarrow> string \<Rightarrow> OTPChannel \<Rightarrow> string option) option
   \<Rightarrow> string \<Rightarrow> OTPChannel \<Rightarrow> OTPHandler
   \<Rightarrow> (py_error + generate_result) \<times> OTPHandler" where
  "resend_otp lib otp now send_callback identifier ch h =
    generate_and_send_otp lib otp now send_callback identifier ch
      (invalidate_otp (get_storage_key identifier ch) h)"

text \<open>
  Successive \<^verbatim>\<open>verify_otp\<close> calls for one identifier and channel; each call
  has its own clock reading and candidate.
\<close>

fun verify_all ::
  "pylib \<Rightarrow> string \<Rightarrow> OTPChannel \<Rightarrow> (int \<times> string) list \<Rightarrow> OTPHandler
   \<Rightarrow> verify_result list \<times> OTPHandler" where
  "verify_all lib identifier ch [] h = ([], h)"
| "verify_all lib identifier ch (c # cs) h =
     (case verify_otp lib (fst c) identifier ch (snd c) h of
        (r, h1) \<Rightarrow>
          (case verify_all lib identifier ch cs h1 of
             (rs, h2) \<Rightarrow> (r # rs, h2)))"

section \<open>Network identity rotator (\<^verbatim>\<open>core/proxy_manager.py\<close>)\<close>

record Proxy =
  host :: string
  port :: int
  username :: string
  password :: string

text \<open>\<^verbatim>\<open>Proxy.__str__\<close> and \<^verbatim>\<open>Proxy.to_url\<close>.\<close>

definition Proxy_str :: "Proxy \<Rightarrow> string" where
  "Proxy_str p = host p @ '':'' @ str_int (port p)"

definition to_url :: "Proxy \<Rightarrow> string" where
  "to_url p =
    ''http://'' @ username p @ '':'' @ password p @ ''@'' @ host p @ '':'' @ str_int (port p)"

text \<open>
  The indices kept per tenant are written only as a remainder modulo the
  length of a non-empty pool, so they are natural numbers.
\<close>

record ProxyManager =
  api_url :: string
  proxies :: "Proxy list"
  country_proxy_index :: "string \<Rightarrow> nat option"
  used_proxies :: "string \<Rightarrow> string list option"

definition ProxyManager_init :: "string \<Rightarrow> ProxyManager" where
  "ProxyManager_init u =
    \<lparr>api_url = u, proxies = [], country_proxy_index = Map.empty, used_proxies = Map.empty\<rparr>"

text \<open>\<^verbatim>\<open>s.split(sep)\<close> for a separator of one character: empty fields are kept.\<close>

fun split_on :: "char \<Rightarrow> string \<Rightarrow> string list" where
  "split_on sep [] = [[]]"
| "split_on sep (c # cs) =
     (if c = sep then [] # split_on sep cs
      else (case split_on sep cs of
              w # ws \<Rightarrow> (c # w) # ws
            | [] \<Rightarrow> [[c]]))"

text \<open>
  What \<^verbatim>\<open>await client.get(self.api_url)\<close> gives: a response with its status code
  and text, or an exception of the HTTP client.
\<close>

datatype http_result = Response int string | TransportError

text \<open>
  The \<^verbatim>\<open>for line in lines\<close> loop of \<^verbatim>\<open>fetch_proxies\<close>, appending to
  \<^verbatim>\<open>self.proxies\<close>.  The first component is \<open>False\<close> when \<^verbatim>\<open>int(parts[1])\<close> raised:
  the loop is left at that line, with the pool as appended so far.
\<close>

fun add_proxies :: "pylib \<Rightarrow> string list \<Rightarrow> Proxy list \<Rightarrow> bool \<times> Proxy list" where
  "add_proxies lib [] pool = (True, pool)"
| "add_proxies lib (line # rest) pool =
     (let line1 = py_strip lib line
      in if line1 = [] then add_proxies lib rest pool
         else (let parts = split_on CHR '':'' line1
               in if length parts \<ge> 4
                  then (case py_int lib (parts ! 1) of
                          None \<Rightarrow> (False, pool)
                        | Some n \<Rightarrow>
                            add_proxies lib rest
                              (pool @ [\<lparr>host = parts ! 0, port = n, username = parts ! 2,
                                        password = parts ! 3\<rparr>]))
                  else add_proxies lib rest pool))"

definition fetch_proxies :: "pylib \<Rightarrow> http_result \<Rightarrow> ProxyManager \<Rightarrow> bool \<times> ProxyManager" where
  "fetch_proxies lib resp pm =
    (case resp of
       TransportError \<Rightarrow> (False, pm)
     | Response status_code body \<Rightarrow>
         if status_code \<noteq> 200 then (False, pm)
         else (let pm1 = pm\<lparr>proxies := []\<rparr>;
                   lines = split_on (CHR 0x0A) (py_strip lib body)
               in case add_proxies lib lines (proxies pm1) of
                    (completed, pool) \<Rightarrow>
                      (if completed then length pool > 0 else False,
                       pm1\<lparr>proxies := pool\<rparr>)))"

text \<open>
  The lines of a body, read apart from the loop.  A line is well-formed when,
  stripped, it is not empty and has at least four fields between colons; its
  port is readable when \<^verbatim>\<open>int\<close> accepts the second field; \<open>line_proxy\<close> is the
  proxy that a well-formed line with a readable port stands for (its port is
  put to 0 for a line whose port is not readable, which no statement below is
  about).
\<close>

definition line_fields :: "pylib \<Rightarrow> string \<Rightarrow> string list" where
  "line_fields lib line = split_on CHR '':'' (py_strip lib line)"

definition well_formed_line :: "pylib \<Rightarrow> string \<Rightarrow> bool" where
  "well_formed_line lib line =
    (py_strip lib line \<noteq> [] \<and> length (line_fields lib line) \<ge> 4)"

definition port_readable :: "pylib \<Rightarrow> string \<Rightarrow> bool" where
  "port_readable lib line = (py_int lib (line_fields lib line ! 1) \<noteq> None)"

definition line_proxy :: "pylib \<Rightarrow> string \<Rightarrow> Proxy" where
  "line_proxy lib line =
    \<lparr>host = line_fields lib line ! 0,
     port = (case py_int lib (line_fields lib line ! 1) of Some n \<Rightarrow> n | None \<Rightarrow> 0),
     username = line_fields lib line ! 2,
     password = line_fields lib line ! 3\<rparr>"

definition body_lines :: "pylib \<Rightarrow> string \<Rightarrow> string list" where
  "body_lines lib body = split_on (CHR 0x0A) (py_strip lib body)"

definition country_codes :: "string list" where
  "country_codes =
    [''fra'', ''dnk'', ''hrv'', ''cze'', ''nld'', ''lux'', ''bel'', ''swe'', ''ltu'', ''fin'',
     ''bgr'']"

text \<open>\<^verbatim>\<open>list.index\<close>: the first position of the element; \<open>None\<close> is \<^verbatim>\<open>ValueError\<close>.\<close>

fun list_index :: "'a list \<Rightarrow> 'a \<Rightarrow> nat option" where
  "list_index [] x = None"
| "list_index (y # ys) x = (if y = x then Some 0 else map_option Suc (list_index ys x))"

definition start_offset :: "string \<Rightarrow> nat" where
  "start_offset code = (case list_index country_codes code of Some i \<Rightarrow> i | None \<Rightarrow> 0)"

text \<open>\<^verbatim>\<open>self.proxies[index]\<close> raises \<^verbatim>\<open>IndexError\<close> at an index beyond the pool.\<close>

definition proxy_at :: "ProxyManager \<Rightarrow> nat \<Rightarrow> py_error + Proxy" where
  "proxy_at pm i = (if i < length (proxies pm) then Inr (proxies pm ! i) else Inl IndexError)"

text \<open>
  \<^verbatim>\<open>get_proxy_for_country\<close>.  For a tenant without an index the code stores the
  start index and an empty history, and then reads the index back from the
  dictionary.
\<close>

definition get_proxy_for_country ::
  "string \<Rightarrow> ProxyManager \<Rightarrow> py_error + (Proxy option \<times> ProxyManager)" where
  "get_proxy_for_country code pm =
    (if proxies pm = [] then Inr (None, pm)
     else (case country_proxy_index pm code of
             None \<Rightarrow>
               (let index = start_offset code mod length (proxies pm);
                    pm1 = pm\<lparr>country_proxy_index := (country_proxy_index pm)(code \<mapsto> index),
                             used_proxies := (used_proxies pm)(code \<mapsto> [])\<rparr>
                in case proxy_at pm1 index of
                     Inl e \<Rightarrow> Inl e
                   | Inr proxy \<Rightarrow> Inr (Some proxy, pm1))
           | Some index \<Rightarrow>
               (case proxy_at pm index of
                  Inl e \<Rightarrow> Inl e
                | Inr proxy \<Rightarrow> Inr (Some proxy, pm))))"

text \<open>
  The history of a tenant, empty when the tenant has none:
  \<^verbatim>\<open>self.used_proxies.get(code, [])\<close>, and what \<^verbatim>\<open>rotate_proxy_for_country\<close>
  appends to after \<^verbatim>\<open>if country_code not in self.used_proxies\<close>.
\<close>

definition used_history :: "ProxyManager \<Rightarrow> string \<Rightarrow> string list" where
  "used_history pm code = (case used_proxies pm code of None \<Rightarrow> [] | Some l \<Rightarrow> l)"

definition rotate_proxy_for_country ::
  "string \<Rightarrow> ProxyManager \<Rightarrow> py_error + (Proxy option \<times> ProxyManager)" where
  "rotate_proxy_for_country code pm =
    (if proxies pm = [] then Inr (None, pm)
     else (case country_proxy_index pm code of
             None \<Rightarrow> get_proxy_for_country code pm
           | Some current_index \<Rightarrow>
               (case proxy_at pm current_index of
                  Inl e \<Rightarrow> Inl e
                | Inr cur_proxy \<Rightarrow>
                    (let pm1 = pm\<lparr>used_proxies :=
                                    (used_proxies pm)
                                      (code \<mapsto> used_history pm code @ [Proxy_str cur_proxy])\<rparr>;
                         next_index = (current_index + 1) mod length (proxies pm1);
                         pm2 = pm1\<lparr>country_proxy_index :=
                                     (country_proxy_index pm1)(code \<mapsto> next_index)\<rparr>
                     in case proxy_at pm2 next_index of
                          Inl e \<Rightarrow> Inl e
                        | Inr proxy \<Rightarrow> Inr (Some proxy, pm2)))))"

definition reset_country_rotation :: "string \<Rightarrow> ProxyManager \<Rightarrow> ProxyManager" where
  "reset_country_rotation code pm =
    pm\<lparr>country_proxy_index := (country_proxy_index pm)(code := None),
       used_proxies := (used_proxies pm)(code := None)\<rparr>"

definition reset_all_rotations :: "ProxyManager \<Rightarrow> ProxyManager" where
  "reset_all_rotations pm = pm\<lparr>country_proxy_index := Map.empty, used_proxies := Map.empty\<rparr>"

text \<open>
  \<open>n\<close> successive \<^verbatim>\<open>rotate_proxy_for_country\<close> calls for one tenant: the proxies
  returned, in order, and the manager after the last call.
\<close>

fun rotations ::
  "nat \<Rightarrow> string \<Rightarrow> ProxyManager \<Rightarrow> py_error + (Proxy option list \<times> ProxyManager)" where
  "rotations 0 code pm = Inr ([], pm)"
| "rotations (Suc n) code pm =
     (case rotate_proxy_for_country code pm of
        Inl e \<Rightarrow> Inl e
      | Inr (r, pm1) \<Rightarrow>
          (case rotations n code pm1 of
             Inl e \<Rightarrow> Inl e
           | Inr (rs, pm2) \<Rightarrow> Inr (r # rs, pm2)))"

section \<open>Availability evaluator (\<^verbatim>\<open>scanner/availability_checker.py\<close>)\<close>

record DateSlot =
  date :: string
  day_name :: string
  slots :: "string list"
  is_preferred :: bool

record AvailabilityResult =
  has_availability :: bool
  available_dates :: "DateSlot list"
  checked_at :: int
  location :: string
  category :: string
  error :: "string option"

text \<open>
  \<^verbatim>\<open>DAY_NAMES_TR\<close>, keyed by \<^verbatim>\<open>weekday()\<close> (Monday is 0).  The names are Turkish;
  the letters outside ASCII are written as their UTF-8 bytes: dotless i is
  \<open>C4 B1\<close>, C with cedilla \<open>C3 87\<close>, s with cedilla \<open>C5 9F\<close>.
\<close>

definition DAY_NAMES_TR :: "(nat \<times> string) list" where
  "DAY_NAMES_TR =
    [(0, ''Pazartesi''),
     (1, ''Sal'' @ [CHR 0xC4, CHR 0xB1]),
     (2, [CHR 0xC3, CHR 0x87] @ ''ar'' @ [CHR 0xC5, CHR 0x9F] @ ''amba''),
     (3, ''Per'' @ [CHR 0xC5, CHR 0x9F] @ ''embe''),
     (4, ''Cuma''),
     (5, ''Cumartesi''),
     (6, ''Pazar'')]"

record AvailabilityChecker =
  preferred_dates :: "string list"
  preferred_days :: "string list"
  last_result :: "AvailabilityResult option"

text \<open>\<^verbatim>\<open>preferred_dates or []\<close>: \<^verbatim>\<open>None\<close> and the empty list both give the empty list.\<close>

definition AvailabilityChecker_init ::
  "string list option \<Rightarrow> string list option \<Rightarrow> AvailabilityChecker" where
  "AvailabilityChecker_init dates days =
    \<lparr>preferred_dates = (case dates of None \<Rightarrow> [] | Some l \<Rightarrow> l),
     preferred_days = (case days of None \<Rightarrow> [] | Some l \<Rightarrow> l),
     last_result = None\<rparr>"

text \<open>
  What the checker reads from the page.  \<open>body_text\<close> is
  \<^verbatim>\<open>page.inner_text("body")\<close> and \<open>available_days\<close> the elements returned by
  \<^verbatim>\<open>page.query_selector_all\<close>, each \<open>None\<close> when the call raises.  An element
  gives its \<^verbatim>\<open>data-date\<close> attribute and its text content, or is \<open>Detached\<close> when
  one of the two reads raises.
\<close>

datatype day_element = DayElement "string option" "string option" | Detached

record page_view =
  body_text :: "string option"
  available_days :: "day_element list option"

text \<open>\<^verbatim>\<open>t in s\<close> for strings: \<open>t\<close> occurs in \<open>s\<close> as a contiguous piece.\<close>

fun str_contains :: "string \<Rightarrow> string \<Rightarrow> bool" where
  "str_contains t [] = (t = [])"
| "str_contains t (c # cs) = (take (length t) (c # cs) = t \<or> str_contains t cs)"

definition no_texts :: "string list" where
  "no_texts =
    [''no appointment'', ''m'' @ [CHR 0xC3, CHR 0xBC] @ ''sait randevu'', ''unavailable'',
     ''dolu'']"

definition check_no_availability :: "pylib \<Rightarrow> page_view \<Rightarrow> bool" where
  "check_no_availability lib page =
    (case body_text page of
       None \<Rightarrow> False
     | Some body \<Rightarrow> list_ex (\<lambda>t. str_contains t (py_lower lib body)) no_texts)"

text \<open>
  One pass of the loop of \<^verbatim>\<open>_collect_available_dates\<close>:
  \<^verbatim>\<open>date_attr or (date_text.strip() if date_text else "")\<close>, and a slot only for a
  non-empty date string.  The day name is empty when \<^verbatim>\<open>strptime\<close> raises.
\<close>

definition date_slot_of :: "pylib \<Rightarrow> day_element \<Rightarrow> DateSlot list" where
  "date_slot_of lib el =
    (case el of
       Detached \<Rightarrow> []
     | DayElement date_attr date_text \<Rightarrow>
         (let stripped = (case date_text of
                            None \<Rightarrow> []
                          | Some t \<Rightarrow> if t = [] then [] else py_strip lib t);
              date_str = (case date_attr of
                            None \<Rightarrow> stripped
                          | Some a \<Rightarrow> if a = [] then stripped else a)
          in if date_str = [] then []
             else (let name = (case strptime_weekday lib date_str of
                                 None \<Rightarrow> []
                               | Some wd \<Rightarrow>
                                   (case map_of DAY_NAMES_TR wd of
                                      None \<Rightarrow> []
                                    | Some n \<Rightarrow> n))
                   in [\<lparr>date = date_str, day_name = name, slots = [],
                        is_preferred = False\<rparr>])))"

definition collect_available_dates :: "pylib \<Rightarrow> page_view \<Rightarrow> DateSlot list" where
  "collect_available_dates lib page =
    (case available_days page of
       None \<Rightarrow> []
     | Some days \<Rightarrow> concat (map (date_slot_of lib) days))"

definition is_preferred_date :: "AvailabilityChecker \<Rightarrow> DateSlot \<Rightarrow> bool" where
  "is_preferred_date ac date_slot =
    (if preferred_dates ac \<noteq> [] \<and> date date_slot \<in> set (preferred_dates ac) then True
     else if preferred_days ac \<noteq> [] \<and> day_name date_slot \<in> set (preferred_days ac) then True
     else preferred_dates ac = [] \<and> preferred_days ac = [])"

text \<open>
  \<^verbatim>\<open>check\<close>; \<open>now\<close> is the \<^verbatim>\<open>datetime.now()\<close> of the result's default
  \<^verbatim>\<open>checked_at\<close>.  The helpers catch their own exceptions, so the outer
  \<^verbatim>\<open>except\<close> branch is not entered.
\<close>

definition check ::
  "pylib \<Rightarrow> int \<Rightarrow> page_view \<Rightarrow> string \<Rightarrow> string \<Rightarrow> AvailabilityChecker
   \<Rightarrow> AvailabilityResult \<times> AvailabilityChecker" where
  "check lib now page loc cat ac =
    (if check_no_availability lib page
     then (\<lparr>has_availability = False, available_dates = [], checked_at = now,
            location = loc, category = cat, error = None\<rparr>, ac)
     else (let found = collect_available_dates lib page;
               marked = map (\<lambda>d. d\<lparr>is_preferred := is_preferred_date ac d\<rparr>) found;
               result = \<lparr>has_availability = length marked > 0, available_dates = marked,
                         checked_at = now, location = loc, category = cat, error = None\<rparr>
           in (result, ac\<lparr>last_result := Some result\<rparr>)))"

text \<open>
  A library instance for evaluating the operations on concrete inputs.  The
  digest is replaced by the identity, which like SHA-256 tells the candidates
  used below apart; the other functions are given on the inputs used below,
  where they agree with Python: text without surrounding white space and
  without capitals, decimal numerals without sign, and four dates of January
  2025 (the 3rd is a Friday, the 4th a Saturday, the 6th a Monday, the 10th a
  Friday). \<^verbatim>\<open>weekday()\<close> counts from Monday as 0.
\<close>

fun digits_value :: "string \<Rightarrow> nat \<Rightarrow> nat option" where
  "digits_value [] acc = Some acc"
| "digits_value (c # cs) acc =
     (if (48::nat) \<le> of_char c \<and> (of_char c :: nat) \<le> 57
      then digits_value cs (10 * acc + (of_char c - 48)) else None)"

definition sample_lib :: pylib where
  "sample_lib =
    \<lparr>sha256_hexdigest = (\<lambda>s. s),
     py_int = (\<lambda>s. if s = [] then None else map_option int (digits_value s 0)),
     py_strip = (\<lambda>s. s),
     py_lower = (\<lambda>s. s),
     strptime_weekday =
       map_of [(''2025-01-03'', 4), (''2025-01-04'', 5), (''2025-01-06'', 0),
               (''2025-01-10'', 4)]\<rparr>"

text \<open>A manager whose pool holds three proxies and in which no tenant has an index yet.\<close>

definition sample_manager :: ProxyManager where
  "sample_manager =
    \<lparr>api_url = ''https://proxy.example/list'',
     proxies =
       [\<lparr>host = ''10.0.0.1'', port = 8080, username = ''u1'', password = ''p1''\<rparr>,
        \<lparr>host = ''10.0.0.2'', port = 8081, username = ''u2'', password = ''p2''\<rparr>,
        \<lparr>host = ''10.0.0.3'', port = 8082, username = ''u3'', password = ''p3''\<rparr>],
     country_proxy_index = Map.empty, used_proxies = Map.empty\<rparr>"

text \<open>
  A calendar page with three selectable days: a Friday and a Saturday given by
  their \<^verbatim>\<open>data-date\<close> attribute, and a Monday given by its text only.
\<close>

definition sample_page :: page_view where
  "sample_page =
    \<lparr>body_text = Some ''takvim'',
     available_days =
       Some [DayElement (Some ''2025-01-03'') (Some ''3''),
             DayElement (Some ''2025-01-04'') None,
             DayElement None (Some ''2025-01-06'')]\<rparr>"

section \<open>Properties of the screen classifier\<close>

lemma get_next_action_table:
  "get_next_action si =
    (case screen_type si of
       LOGIN \<Rightarrow> Some ''login''
     | OTP_VERIFICATION \<Rightarrow> Some ''enter_otp''
     | DASHBOARD \<Rightarrow> Some ''navigate_to_appointment''
     | DATE_SELECTION \<Rightarrow> Some ''select_date''
     | TIME_SELECTION \<Rightarrow> Some ''select_time''
     | CONFIRMATION \<Rightarrow> Some ''confirm''
     | CAPTCHA \<Rightarrow> Some ''solve_captcha''
     | ERROR \<Rightarrow> Some ''handle_error''
     | _ \<Rightarrow> None)"
  by (cases "screen_type si") (simp_all add: get_next_action_def action_map_def)

text \<open>
  Claim C7, as stated, at a screen of type \<open>ERROR\<close>: the claim says that no
  automatic action is returned, the table returns \<^verbatim>\<open>"handle_error"\<close>.
\<close>

theorem get_next_action_error_counterexample:
  "get_next_action
     \<lparr>screen_type = ERROR, url = ''https://visa.vfsglobal.com/tur/tr/fra/login'', title = '''',
      has_captcha = False, has_error = True, screen_error_message = None,
      available_actions = [], metadata = []\<rparr> = Some ''handle_error''
   \<and> \<not> (\<forall>si. screen_type si \<in> {UNKNOWN, ERROR, BLOCKED, MAINTENANCE} \<longrightarrow> get_next_action si = None)"
proof -
  let ?si = "\<lparr>screen_type = ERROR, url = ''https://visa.vfsglobal.com/tur/tr/fra/login'', title = '''',
      has_captcha = False, has_error = True, screen_error_message = None,
      available_actions = [], metadata = []\<rparr>"
  have e: "get_next_action ?si = Some ''handle_error''"
    by (simp add: get_next_action_table)
  have "\<not> (screen_type ?si \<in> {UNKNOWN, ERROR, BLOCKED, MAINTENANCE} \<longrightarrow> get_next_action ?si = None)"
    using e by simp
  then have "\<not> (\<forall>si. screen_type si \<in> {UNKNOWN, ERROR, BLOCKED, MAINTENANCE} \<longrightarrow> get_next_action si = None)"
    by blast
  with e show ?thesis by blast
qed

text \<open>
  Claim C7, amended: \<^verbatim>\<open>get_next_action\<close> depends on \<open>screen_type\<close> only; it maps
  \<open>OTP_VERIFICATION\<close> to \<^verbatim>\<open>"enter_otp"\<close>, \<open>DATE_SELECTION\<close> to \<^verbatim>\<open>"select_date"\<close>
  and \<open>ERROR\<close> to \<^verbatim>\<open>"handle_error"\<close>, and it returns \<^verbatim>\<open>None\<close> for every screen whose
  type is \<open>UNKNOWN\<close>, \<open>BLOCKED\<close> or \<open>MAINTENANCE\<close>.
\<close>

theorem get_next_action_lookup:
  "(screen_type a = screen_type b \<longrightarrow> get_next_action a = get_next_action b)
   \<and> get_next_action (si\<lparr>screen_type := OTP_VERIFICATION\<rparr>) = Some ''enter_otp''
   \<and> get_next_action (si\<lparr>screen_type := DATE_SELECTION\<rparr>) = Some ''select_date''
   \<and> get_next_action (si\<lparr>screen_type := ERROR\<rparr>) = Some ''handle_error''
   \<and> get_next_action (si\<lparr>screen_type := UNKNOWN\<rparr>) = None
   \<and> get_next_action (si\<lparr>screen_type := BLOCKED\<rparr>) = None
   \<and> get_next_action (si\<lparr>screen_type := MAINTENANCE\<rparr>) = None"
  by (simp add: get_next_action_table)

theorem get_next_action_lookup_witness:
  "screen_type
     \<lparr>screen_type = MAINTENANCE, url = ''a'', title = ''b'', has_captcha = False, has_error = False,
      screen_error_message = None, available_actions = [], metadata = []\<rparr>
   = screen_type
     \<lparr>screen_type = MAINTENANCE, url = ''c'', title = ''d'', has_captcha = True, has_error = True,
      screen_error_message = Some ''e'', available_actions = [''login''], metadata = []\<rparr>
   \<and> get_next_action
     \<lparr>screen_type = MAINTENANCE, url = ''a'', title = ''b'', has_captcha = False, has_error = False,
      screen_error_message = None, available_actions = [], metadata = []\<rparr>
   = get_next_action
     \<lparr>screen_type = MAINTENANCE, url = ''c'', title = ''d'', has_captcha = True, has_error = True,
      screen_error_message = Some ''e'', available_actions = [''login''], metadata = []\<rparr>"
proof -
  let ?a = "\<lparr>screen_type = MAINTENANCE, url = ''a'', title = ''b'', has_captcha = False,
      has_error = False, screen_error_message = None, available_actions = [], metadata = []\<rparr>"
  let ?b = "\<lparr>screen_type = MAINTENANCE, url = ''c'', title = ''d'', has_captcha = True,
      has_error = True, screen_error_message = Some ''e'', available_actions = [''login''],
      metadata = []\<rparr>"
  have same: "screen_type ?a = screen_type ?b" by simp
  from get_next_action_lookup [of ?a ?b ?a]
  have "screen_type ?a = screen_type ?b \<longrightarrow> get_next_action ?a = get_next_action ?b"
    by (rule conjunct1)
  with same show ?thesis by blast
qed

section \<open>Properties of the tenant session registry\<close>

lemma filter_update_le:
  "length (filter P (AList.update k v xs)) \<le> Suc (length (filter P xs))"
  by (induction xs) auto

lemma filter_update_inactive:
  "\<not> P (k, v) \<Longrightarrow> length (filter P (AList.update k v xs)) \<le> length (filter P xs)"
  by (induction xs) auto

lemma get_session_count:
  "get_active_count (snd (get_session code sm)) = get_active_count sm"
  by (simp add: get_session_def get_active_count_def is_active_def CountrySession_init_def
      active_statuses_def split: option.splits)

lemma with_session_max [simp]:
  "max_parallel (with_session code f sm) = max_parallel sm"
  by (simp add: with_session_def get_session_def split: option.splits prod.splits)

lemma with_session_lock [simp]:
  "login_lock (with_session code f sm) = login_lock sm"
  by (simp add: with_session_def get_session_def split: option.splits prod.splits)

lemma with_session_lookup:
  "map_of (sessions (with_session code f sm)) =
   (map_of (sessions sm))
     (code \<mapsto> f (case map_of (sessions sm) code of None \<Rightarrow> CountrySession_init code | Some s \<Rightarrow> s))"
  by (auto simp: with_session_def get_session_def update_conv' map_add_def fun_eq_iff
      split: option.splits)

lemma with_session_count_le:
  "get_active_count (with_session code f sm) \<le> get_active_count sm + 1"
proof -
  obtain s sm1 where g: "get_session code sm = (s, sm1)" by (cases "get_session code sm")
  have c: "get_active_count sm1 = get_active_count sm"
    using get_session_count [of code sm] g by simp
  have "length (filter is_active (AList.update code (f s) (sessions sm1)))
        \<le> Suc (length (filter is_active (sessions sm1)))"
    by (rule filter_update_le)
  then show ?thesis
    using c g by (simp add: with_session_def get_active_count_def)
qed

lemma with_session_count_inactive:
  assumes "\<And>s. status (f s) \<notin> set active_statuses"
  shows "get_active_count (with_session code f sm) \<le> get_active_count sm"
proof -
  obtain s sm1 where g: "get_session code sm = (s, sm1)" by (cases "get_session code sm")
  have c: "get_active_count sm1 = get_active_count sm"
    using get_session_count [of code sm] g by simp
  have "\<not> is_active (code, f s)" using assms by (simp add: is_active_def)
  then have "length (filter is_active (AList.update code (f s) (sessions sm1)))
        \<le> length (filter is_active (sessions sm1))"
    by (rule filter_update_inactive)
  then show ?thesis
    using c g by (simp add: with_session_def get_active_count_def)
qed

lemma start_session_count:
  "get_active_count (start_session code proxy t1 t2 sm) \<le> get_active_count sm + 1"
  unfolding start_session_def by (rule with_session_count_le)

lemma stop_session_count:
  "get_active_count (stop_session code t sm) \<le> get_active_count sm"
  unfolding stop_session_def
  by (rule with_session_count_inactive) (simp add: active_statuses_def)

subsection \<open>The login lock\<close>

text \<open>
  The lock is taken and given back inside one call of \<^verbatim>\<open>request_login\<close>, and no
  other method touches it: a call that finds the lock free returns with the
  lock free, the caller in \<open>LOGGING_IN\<close> and every other session as it was, so
  also one that was in \<open>LOGGING_IN\<close> already.
\<close>

lemma request_login_free_lock:
  assumes "\<not> login_lock sm"
  shows "fst (request_login code t1 t2 sm) = Some True"
    and "\<not> login_lock (snd (request_login code t1 t2 sm))"
    and "map_option status (map_of (sessions (snd (request_login code t1 t2 sm))) code)
         = Some LOGGING_IN"
    and "other \<noteq> code \<Longrightarrow>
         map_of (sessions (snd (request_login code t1 t2 sm))) other
         = map_of (sessions sm) other"
  using assms
  by (simp_all add: request_login_def lock_acquire_def lock_release_def Let_def
      with_session_lookup)

lemma release_login_lock:
  "login_lock (release_login code t sm) = login_lock sm"
  by (simp add: release_login_def)

text \<open>
  Claim C1 at two calls made one after the other, with no \<^verbatim>\<open>release_login\<close>
  between them: both calls return \<open>True\<close>, the lock is free after the first,
  and afterwards both tenants are in \<open>LOGGING_IN\<close>.  The claim says that at most
  one tenant is in \<open>LOGGING_IN\<close> and that the lock is held until it leaves.
\<close>

theorem request_login_two_tenants_logging_in:
  "fst (request_login ''fra'' 1 2 (SessionManager_init 3)) = Some True
   \<and> \<not> login_lock (snd (request_login ''fra'' 1 2 (SessionManager_init 3)))
   \<and> fst (request_login ''dnk'' 3 4 (snd (request_login ''fra'' 1 2 (SessionManager_init 3))))
       = Some True
   \<and> map (\<lambda>e. (fst e, status (snd e)))
       (sessions (snd (request_login ''dnk'' 3 4
          (snd (request_login ''fra'' 1 2 (SessionManager_init 3))))))
       = [(''fra'', LOGGING_IN), (''dnk'', LOGGING_IN)]"
  by (simp add: request_login_def lock_acquire_def lock_release_def Let_def with_session_def
      get_session_def SessionManager_init_def CountrySession_init_def)

subsection \<open>Admission\<close>

text \<open>
  Claim C2, as stated, with the budget of 3 and four tenants started one after
  the other: before the fourth call \<^verbatim>\<open>can_start_scan\<close> answers false, the call
  puts the tenant into \<open>CHECKING\<close> all the same, and four sessions are active.
\<close>

theorem start_session_over_budget_counterexample:
  "\<not> can_start_scan
        (start_session ''hrv'' None 5 6 (start_session ''dnk'' None 3 4
          (start_session ''fra'' None 1 2 (SessionManager_init 3))))
   \<and> map_option status (map_of (sessions
        (start_session ''cze'' None 7 8 (start_session ''hrv'' None 5 6
          (start_session ''dnk'' None 3 4 (start_session ''fra'' None 1 2
            (SessionManager_init 3)))))) ''cze'') = Some CHECKING
   \<and> get_active_count
        (start_session ''cze'' None 7 8 (start_session ''hrv'' None 5 6
          (start_session ''dnk'' None 3 4 (start_session ''fra'' None 1 2
            (SessionManager_init 3))))) = 4
   \<and> \<not> get_active_count
        (start_session ''cze'' None 7 8 (start_session ''hrv'' None 5 6
          (start_session ''dnk'' None 3 4 (start_session ''fra'' None 1 2
            (SessionManager_init 3)))))
       \<le> max_parallel
        (start_session ''cze'' None 7 8 (start_session ''hrv'' None 5 6
          (start_session ''dnk'' None 3 4 (start_session ''fra'' None 1 2
            (SessionManager_init 3)))))"
  by (simp add: can_start_scan_def get_active_count_def is_active_def active_statuses_def
      start_session_def with_session_def get_session_def SessionManager_init_def
      CountrySession_init_def)

text \<open>
  Claim C2, amended: \<^verbatim>\<open>start_session\<close> makes no admission test of its own.  When
  every \<^verbatim>\<open>start_session\<close> is called only in a state where \<^verbatim>\<open>can_start_scan()\<close> is
  true, then after any sequence of such starts and of \<^verbatim>\<open>stop_session\<close> calls,
  begun in a state within the budget, the number of sessions in \<open>CHECKING\<close>,
  \<open>WAITING_LOGIN\<close>, \<open>LOGGING_IN\<close>, \<open>WAITING_OTP\<close> or \<open>SCANNING\<close> does not exceed
  \<^verbatim>\<open>max_parallel\<close>.
\<close>

theorem admitted_calls_within_budget:
  "get_active_count sm \<le> max_parallel sm \<Longrightarrow>
   get_active_count (admitted_calls sm cs) \<le> max_parallel sm
   \<and> max_parallel (admitted_calls sm cs) = max_parallel sm"
proof (induction sm cs rule: admitted_calls.induct)
  case (1 sm)
  then show ?case by simp
next
  case (2 sm code proxy t1 t2 cs)
  let ?sm' = "if can_start_scan sm then start_session code proxy t1 t2 sm else sm"
  have m: "max_parallel ?sm' = max_parallel sm" by (simp add: start_session_def)
  have "get_active_count ?sm' \<le> max_parallel sm"
    using "2.prems" start_session_count [of code proxy t1 t2 sm]
    by (auto simp: can_start_scan_def)
  with m "2.IH" show ?case by simp
next
  case (3 sm code t cs)
  have m: "max_parallel (stop_session code t sm) = max_parallel sm"
    by (simp add: stop_session_def)
  have "get_active_count (stop_session code t sm) \<le> max_parallel sm"
    using "3.prems" stop_session_count [of code t sm] by simp
  with m "3.IH" show ?case by simp
qed

theorem admitted_calls_within_budget_witness:
  "get_active_count (SessionManager_init 3) \<le> max_parallel (SessionManager_init 3)
   \<and> get_active_count
        (admitted_calls (SessionManager_init 3)
           [Start ''fra'' None 1 2, Start ''dnk'' None 3 4, Start ''hrv'' None 5 6,
            Start ''cze'' None 7 8, Stop ''dnk'' 9, Start ''cze'' None 10 11])
       \<le> max_parallel (SessionManager_init 3)"
proof -
  have h: "get_active_count (SessionManager_init 3) \<le> max_parallel (SessionManager_init 3)"
    by (simp add: get_active_count_def SessionManager_init_def)
  from admitted_calls_within_budget [OF h] h show ?thesis by blast
qed

section \<open>Properties of the verification code store\<close>

text \<open>
  Claim C3: the cases of \<^verbatim>\<open>verify_otp\<close>, in the order of the code.  No record
  under the key: \<open>INVALID\<close>, nothing changes.  A record already verified:
  \<open>INVALID\<close>, nothing changes.  Otherwise, the clock past \<open>expires_at\<close>:
  \<open>EXPIRED\<close>, and the record is removed.  Otherwise, \<open>attempts\<close> at or above
  \<open>max_attempts\<close>: \<open>MAX_ATTEMPTS_EXCEEDED\<close>, and the record is removed.
  Otherwise the stored counter is one higher after the call whatever the
  comparison of the digests gives, and a wrong candidate gets \<open>INVALID\<close> with
  \<open>remaining_attempts = max_attempts - attempts\<close>, \<open>attempts\<close> being the
  incremented counter.
\<close>

theorem verify_otp_fails_closed:
  "(otp_store h (get_storage_key ident ch) = None \<longrightarrow>
      vr_verified (fst (verify_otp lib now ident ch otp h)) = False
      \<and> vr_status (fst (verify_otp lib now ident ch otp h)) = INVALID
      \<and> snd (verify_otp lib now ident ch otp h) = h)
   \<and> (otp_store h (get_storage_key ident ch) = Some rec \<and> verified rec \<longrightarrow>
      vr_verified (fst (verify_otp lib now ident ch otp h)) = False
      \<and> vr_status (fst (verify_otp lib now ident ch otp h)) = INVALID
      \<and> snd (verify_otp lib now ident ch otp h) = h)
   \<and> (otp_store h (get_storage_key ident ch) = Some rec \<and> \<not> verified rec
        \<and> now > expires_at rec \<longrightarrow>
      vr_verified (fst (verify_otp lib now ident ch otp h)) = False
      \<and> vr_status (fst (verify_otp lib now ident ch otp h)) = EXPIRED
      \<and> otp_store (snd (verify_otp lib now ident ch otp h))
          = (otp_store h)(get_storage_key ident ch := None))
   \<and> (otp_store h (get_storage_key ident ch) = Some rec \<and> \<not> verified rec
        \<and> \<not> now > expires_at rec \<and> attempts rec \<ge> max_attempts h \<longrightarrow>
      vr_verified (fst (verify_otp lib now ident ch otp h)) = False
      \<and> vr_status (fst (verify_otp lib now ident ch otp h)) = MAX_ATTEMPTS_EXCEEDED
      \<and> otp_store (snd (verify_otp lib now ident ch otp h))
          = (otp_store h)(get_storage_key ident ch := None))
   \<and> (otp_store h (get_storage_key ident ch) = Some rec \<and> \<not> verified rec
        \<and> \<not> now > expires_at rec \<and> \<not> attempts rec \<ge> max_attempts h \<longrightarrow>
      map_option attempts
          (otp_store (snd (verify_otp lib now ident ch otp h))
             (get_storage_key ident ch)) = Some (attempts rec + 1)
      \<and> vr_verified (fst (verify_otp lib now ident ch otp h))
          = (hash_otp lib otp = otp_hash rec)
      \<and> (hash_otp lib otp \<noteq> otp_hash rec \<longrightarrow>
            vr_status (fst (verify_otp lib now ident ch otp h)) = INVALID
            \<and> vr_remaining_attempts (fst (verify_otp lib now ident ch otp h))
                = Some (max_attempts h - (attempts rec + 1))
            \<and> otp_store (snd (verify_otp lib now ident ch otp h))
                = (otp_store h)(get_storage_key ident ch \<mapsto>
                     rec\<lparr>attempts := attempts rec + 1\<rparr>)))"
  by (simp add: verify_otp_def invalidate_otp_def Let_def)

theorem verify_otp_fails_closed_witness:
  "vr_status (fst (verify_otp sample_lib 1 ''+905551234567'' SMS ''123456'' OTPHandler_default))
     = INVALID
   \<and> vr_status (fst (verify_otp sample_lib 1 ''+905551234567'' SMS ''123456''
        (OTPHandler_default\<lparr>otp_store := [''sms:+905551234567'' \<mapsto>
           \<lparr>otp_hash = ''123456'', channel = SMS, created_at = 0, expires_at = 300000000,
            attempts = 1, verified = True\<rparr>]\<rparr>))) = INVALID
   \<and> vr_status (fst (verify_otp sample_lib 300000001 ''+905551234567'' SMS ''123456''
        (OTPHandler_default\<lparr>otp_store := [''sms:+905551234567'' \<mapsto>
           \<lparr>otp_hash = ''123456'', channel = SMS, created_at = 0, expires_at = 300000000,
            attempts = 0, verified = False\<rparr>]\<rparr>))) = EXPIRED
   \<and> otp_store (snd (verify_otp sample_lib 300000001 ''+905551234567'' SMS ''123456''
        (OTPHandler_default\<lparr>otp_store := [''sms:+905551234567'' \<mapsto>
           \<lparr>otp_hash = ''123456'', channel = SMS, created_at = 0, expires_at = 300000000,
            attempts = 0, verified = False\<rparr>]\<rparr>))) ''sms:+905551234567'' = None
   \<and> vr_status (fst (verify_otp sample_lib 4 ''+905551234567'' SMS ''123456''
        (OTPHandler_default\<lparr>otp_store := [''sms:+905551234567'' \<mapsto>
           \<lparr>otp_hash = ''123456'', channel = SMS, created_at = 0, expires_at = 300000000,
            attempts = 3, verified = False\<rparr>]\<rparr>))) = MAX_ATTEMPTS_EXCEEDED
   \<and> otp_store (snd (verify_otp sample_lib 4 ''+905551234567'' SMS ''123456''
        (OTPHandler_default\<lparr>otp_store := [''sms:+905551234567'' \<mapsto>
           \<lparr>otp_hash = ''123456'', channel = SMS, created_at = 0, expires_at = 300000000,
            attempts = 3, verified = False\<rparr>]\<rparr>))) ''sms:+905551234567'' = None
   \<and> vr_remaining_attempts (fst (verify_otp sample_lib 2 ''+905551234567'' SMS ''000000''
        (OTPHandler_default\<lparr>otp_store := [''sms:+905551234567'' \<mapsto>
           \<lparr>otp_hash = ''123456'', channel = SMS, created_at = 0, expires_at = 300000000,
            attempts = 1, verified = False\<rparr>]\<rparr>))) = Some 1"
proof -
  let ?id = "''+905551234567''"
  let ?key = "''sms:+905551234567''"
  have key: "get_storage_key ?id SMS = ?key" by (simp add: get_storage_key_def)
  have dflt: "max_attempts OTPHandler_default = 3" "otp_store OTPHandler_default ?key = None"
    by (simp_all add: OTPHandler_default_def OTPHandler_init_def MAX_VERIFICATION_ATTEMPTS_def)
  have hash: "hash_otp sample_lib ''000000'' \<noteq> ''123456''"
    by (simp add: hash_otp_def sample_lib_def)
  let ?r = "\<lambda>a v. \<lparr>otp_hash = ''123456'', channel = SMS, created_at = 0,
                     expires_at = 300000000, attempts = a, verified = v\<rparr>"
  let ?h = "\<lambda>a v. OTPHandler_default\<lparr>otp_store := [?key \<mapsto> ?r a v]\<rparr>"
  note b1 = verify_otp_fails_closed
    [where h = OTPHandler_default and ident = ?id and ch = SMS and lib = sample_lib
       and now = 1 and otp = "''123456''"]
  note b2 = verify_otp_fails_closed
    [where h = "?h 1 True" and rec = "?r 1 True" and ident = ?id and ch = SMS
       and lib = sample_lib and now = 1 and otp = "''123456''"]
  note b3 = verify_otp_fails_closed
    [where h = "?h 0 False" and rec = "?r 0 False" and ident = ?id and ch = SMS
       and lib = sample_lib and now = 300000001 and otp = "''123456''"]
  note b4 = verify_otp_fails_closed
    [where h = "?h 3 False" and rec = "?r 3 False" and ident = ?id and ch = SMS
       and lib = sample_lib and now = 4 and otp = "''123456''"]
  note b5 = verify_otp_fails_closed
    [where h = "?h 1 False" and rec = "?r 1 False" and ident = ?id and ch = SMS
       and lib = sample_lib and now = 2 and otp = "''000000''"]
  have c1: "vr_status (fst (verify_otp sample_lib 1 ?id SMS ''123456'' OTPHandler_default))
     = INVALID"
    using b1 by (simp add: key dflt)
  have c2: "vr_status (fst (verify_otp sample_lib 1 ?id SMS ''123456'' (?h 1 True))) = INVALID"
    using b2 by (simp add: key dflt)
  have c3: "vr_status (fst (verify_otp sample_lib 300000001 ?id SMS ''123456'' (?h 0 False)))
     = EXPIRED"
    "otp_store (snd (verify_otp sample_lib 300000001 ?id SMS ''123456'' (?h 0 False))) ?key
     = None"
    using b3 by (simp_all add: key dflt)
  have c4: "vr_status (fst (verify_otp sample_lib 4 ?id SMS ''123456'' (?h 3 False)))
     = MAX_ATTEMPTS_EXCEEDED"
    "otp_store (snd (verify_otp sample_lib 4 ?id SMS ''123456'' (?h 3 False))) ?key = None"
    using b4 by (simp_all add: key dflt)
  have c5: "vr_remaining_attempts
      (fst (verify_otp sample_lib 2 ?id SMS ''000000'' (?h 1 False))) = Some 1"
    using b5 hash by (simp add: key dflt)
  from c1 c2 c3 c4 c5 show ?thesis by blast
qed

lemma verify_otp_wrong:
  assumes "otp_store h (get_storage_key ident ch) = Some rec"
    and "\<not> verified rec" and "t \<le> expires_at rec" and "attempts rec < max_attempts h"
    and "hash_otp lib otp \<noteq> otp_hash rec"
  shows "verify_otp lib t ident ch otp h =
          (\<lparr>vr_verified = False, vr_status = INVALID,
            vr_message = ''Invalid OTP. '' @ str_int (max_attempts h - (attempts rec + 1))
                         @ '' attempts remaining'',
            vr_remaining_attempts = Some (max_attempts h - (attempts rec + 1))\<rparr>,
           h\<lparr>otp_store := (otp_store h)(get_storage_key ident ch \<mapsto>
                rec\<lparr>attempts := attempts rec + 1\<rparr>)\<rparr>)"
  using assms by (simp add: verify_otp_def Let_def)

lemma verify_all_wrong:
  assumes "otp_store h (get_storage_key ident ch) = Some rec"
    and "\<not> verified rec"
    and "attempts rec + int (length calls) \<le> max_attempts h"
    and "\<forall>c \<in> set calls. fst c \<le> expires_at rec \<and> hash_otp lib (snd c) \<noteq> otp_hash rec"
  shows "map vr_verified (fst (verify_all lib ident ch calls h))
           = replicate (length calls) False
       \<and> map vr_status (fst (verify_all lib ident ch calls h))
           = replicate (length calls) INVALID
       \<and> map vr_remaining_attempts (fst (verify_all lib ident ch calls h))
           = map (\<lambda>k. Some (max_attempts h - (attempts rec + 1 + int k))) [0..<length calls]
       \<and> snd (verify_all lib ident ch calls h)
           = h\<lparr>otp_store := (otp_store h)(get_storage_key ident ch \<mapsto>
                rec\<lparr>attempts := attempts rec + int (length calls)\<rparr>)\<rparr>"
  using assms
proof (induction calls arbitrary: h rec)
  case Nil
  then show ?case by (simp add: map_upd_triv)
next
  case (Cons c cs)
  let ?key = "get_storage_key ident ch"
  let ?rec1 = "rec\<lparr>attempts := attempts rec + 1\<rparr>"
  let ?h1 = "h\<lparr>otp_store := (otp_store h)(?key \<mapsto> ?rec1)\<rparr>"
  have lt: "attempts rec < max_attempts h" using Cons.prems(3) by simp
  have step: "verify_otp lib (fst c) ident ch (snd c) h =
          (\<lparr>vr_verified = False, vr_status = INVALID,
            vr_message = ''Invalid OTP. '' @ str_int (max_attempts h - (attempts rec + 1))
                         @ '' attempts remaining'',
            vr_remaining_attempts = Some (max_attempts h - (attempts rec + 1))\<rparr>, ?h1)"
    using Cons.prems lt by (intro verify_otp_wrong) simp_all
  have ih: "map vr_verified (fst (verify_all lib ident ch cs ?h1))
           = replicate (length cs) False
       \<and> map vr_status (fst (verify_all lib ident ch cs ?h1))
           = replicate (length cs) INVALID
       \<and> map vr_remaining_attempts (fst (verify_all lib ident ch cs ?h1))
           = map (\<lambda>k. Some (max_attempts ?h1 - (attempts ?rec1 + 1 + int k))) [0..<length cs]
       \<and> snd (verify_all lib ident ch cs ?h1)
           = ?h1\<lparr>otp_store := (otp_store ?h1)(?key \<mapsto>
                ?rec1\<lparr>attempts := attempts ?rec1 + int (length cs)\<rparr>)\<rparr>"
    using Cons.prems by (intro Cons.IH) simp_all
  obtain rs h2 where rest: "verify_all lib ident ch cs ?h1 = (rs, h2)"
    by (cases "verify_all lib ident ch cs ?h1")
  have run: "verify_all lib ident ch (c # cs) h =
      (\<lparr>vr_verified = False, vr_status = INVALID,
        vr_message = ''Invalid OTP. '' @ str_int (max_attempts h - (attempts rec + 1))
                     @ '' attempts remaining'',
        vr_remaining_attempts = Some (max_attempts h - (attempts rec + 1))\<rparr> # rs, h2)"
    using step rest by simp
  have h2: "h2 = h\<lparr>otp_store := (otp_store h)(?key \<mapsto>
                rec\<lparr>attempts := attempts rec + int (length (c # cs))\<rparr>)\<rparr>"
    using ih rest by (simp add: add.assoc)
  have r1: "map vr_verified rs = replicate (length cs) False"
    and r2: "map vr_status rs = replicate (length cs) INVALID"
    and r3: "map vr_remaining_attempts rs
             = map (\<lambda>k. Some (max_attempts h - (attempts rec + 1 + 1 + int k))) [0..<length cs]"
    using ih rest by simp_all
  have shift: "map (\<lambda>k. Some (max_attempts h - (attempts rec + 1 + int k))) [0..<length (c # cs)]
      = Some (max_attempts h - (attempts rec + 1))
        # map (\<lambda>k. Some (max_attempts h - (attempts rec + 1 + 1 + int k))) [0..<length cs]"
    by (simp add: map_upt_Suc add.assoc del: upt_Suc)
  have c1: "map vr_verified (fst (verify_all lib ident ch (c # cs) h))
           = replicate (length (c # cs)) False"
    using run r1 by simp
  have c2: "map vr_status (fst (verify_all lib ident ch (c # cs) h))
           = replicate (length (c # cs)) INVALID"
    using run r2 by simp
  have c3: "map vr_remaining_attempts (fst (verify_all lib ident ch (c # cs) h))
           = map (\<lambda>k. Some (max_attempts h - (attempts rec + 1 + int k))) [0..<length (c # cs)]"
    using run r3 by (simp only: shift fst_conv list.map verify_result.simps)
  have c4: "snd (verify_all lib ident ch (c # cs) h)
           = h\<lparr>otp_store := (otp_store h)(?key \<mapsto>
                rec\<lparr>attempts := attempts rec + int (length (c # cs))\<rparr>)\<rparr>"
    using run h2 by (simp only: snd_conv)
  from c1 c2 c3 c4 show ?case by blast
qed

lemmas otp_eval =
  verify_otp_def generate_and_send_otp_def add_minutes_def datetime_end_def invalidate_otp_def
  hash_otp_def get_storage_key_def OTPHandler_default_def OTPHandler_init_def
  DEFAULT_OTP_LENGTH_def DEFAULT_EXPIRY_MINUTES_def MAX_VERIFICATION_ATTEMPTS_def
  sample_lib_def Let_def

text \<open>
  A \<^verbatim>\<open>generate_and_send_otp\<close> call that returns has stored a new record under
  the key, unverified and with no attempt counted, expiring \<open>expiry_minutes\<close>
  after \<open>now\<close>; a call that raises has changed nothing.
\<close>

lemma generate_returned:
  assumes "fst (generate_and_send_otp lib code now cb ident ch h0) = Inr res"
  shows "snd (generate_and_send_otp lib code now cb ident ch h0)
         = h0\<lparr>otp_store := (otp_store h0)(get_storage_key ident ch \<mapsto>
              \<lparr>otp_hash = hash_otp lib code, channel = ch, created_at = now,
               expires_at = now + expiry_minutes h0 * 60000000, attempts = 0,
               verified = False\<rparr>)\<rparr>"
  using assms
  by (auto simp: generate_and_send_otp_def add_minutes_def Let_def
      split: sum.splits if_splits)

lemma generate_returns:
  assumes "add_minutes now (expiry_minutes h0) = Inr expires"
  shows "\<exists>res. fst (generate_and_send_otp lib code now cb ident ch h0) = Inr res"
  using assms by (simp add: generate_and_send_otp_def Let_def)

lemma generate_raised:
  assumes "fst (generate_and_send_otp lib code now cb ident ch h0) = Inl e"
  shows "snd (generate_and_send_otp lib code now cb ident ch h0) = h0"
  using assms
  by (auto simp: generate_and_send_otp_def Let_def split: sum.splits)

text \<open>
  Claim C5, as stated, at the scenario of the specification: a code issued for
  \<^verbatim>\<open>+905551234567\<close> over SMS by the default handler (\<open>max_attempts = 3\<close>) and
  three wrong candidates.  The remaining attempts reported are 2, 1 and 0, and
  after the third wrong call the record is still in the store, with
  \<open>attempts = 3\<close>: the third wrong try does not purge it.
\<close>

theorem third_wrong_guess_keeps_record_counterexample:
  "map vr_remaining_attempts
     (fst (verify_all sample_lib ''+905551234567'' SMS
            [(1, ''000000''), (2, ''111111''), (3, ''222222'')]
            (snd (generate_and_send_otp sample_lib ''123456'' 0 None ''+905551234567'' SMS
                    OTPHandler_default))))
     = [Some 2, Some 1, Some 0]
   \<and> map_option attempts
       (otp_store
         (snd (verify_all sample_lib ''+905551234567'' SMS
                [(1, ''000000''), (2, ''111111''), (3, ''222222'')]
                (snd (generate_and_send_otp sample_lib ''123456'' 0 None ''+905551234567'' SMS
                        OTPHandler_default))))
         (get_storage_key ''+905551234567'' SMS)) = Some 3
   \<and> otp_store
         (snd (verify_all sample_lib ''+905551234567'' SMS
                [(1, ''000000''), (2, ''111111''), (3, ''222222'')]
                (snd (generate_and_send_otp sample_lib ''123456'' 0 None ''+905551234567'' SMS
                        OTPHandler_default))))
         (get_storage_key ''+905551234567'' SMS) \<noteq> None"
  by (simp add: otp_eval)

text \<open>
  Claim C5, amended: after \<open>max_attempts\<close> consecutive wrong \<^verbatim>\<open>verify_otp\<close> calls
  made before expiry on a record issued by a \<^verbatim>\<open>generate_and_send_otp\<close> call that
  returned, each of them answered \<open>INVALID\<close> with
  the remaining attempts counted down to 0, the record is still stored, with
  \<open>attempts = max_attempts\<close>.  The next \<^verbatim>\<open>verify_otp\<close> for the key, whatever its
  candidate, is not verified, answers \<open>MAX_ATTEMPTS_EXCEEDED\<close> (\<open>EXPIRED\<close> when the
  clock has passed the expiry) and purges the record; every call after that
  answers \<open>INVALID\<close>.
\<close>

theorem wrong_guesses_exhaust_record:
  assumes returned: "fst (generate_and_send_otp lib code now cb ident ch h0) = Inr res"
    and issued: "h = snd (generate_and_send_otp lib code now cb ident ch h0)"
    and n: "max_attempts h0 = int (length calls)"
    and wrong: "\<forall>c \<in> set calls. fst c \<le> now + expiry_minutes h0 * 60000000
                  \<and> hash_otp lib (snd c) \<noteq> hash_otp lib code"
  shows "map vr_status (fst (verify_all lib ident ch calls h))
           = replicate (length calls) INVALID
       \<and> map vr_remaining_attempts (fst (verify_all lib ident ch calls h))
           = map (\<lambda>k. Some (max_attempts h0 - (1 + int k))) [0..<length calls]
       \<and> map_option attempts
           (otp_store (snd (verify_all lib ident ch calls h))
              (get_storage_key ident ch)) = Some (max_attempts h0)
       \<and> vr_verified (fst (verify_otp lib t ident ch otp
                              (snd (verify_all lib ident ch calls h)))) = False
       \<and> vr_status (fst (verify_otp lib t ident ch otp
                            (snd (verify_all lib ident ch calls h))))
           = (if t > now + expiry_minutes h0 * 60000000 then EXPIRED
              else MAX_ATTEMPTS_EXCEEDED)
       \<and> otp_store (snd (verify_otp lib t ident ch otp
                            (snd (verify_all lib ident ch calls h))))
           (get_storage_key ident ch) = None
       \<and> vr_verified (fst (verify_otp lib t' ident ch otp'
             (snd (verify_otp lib t ident ch otp
                     (snd (verify_all lib ident ch calls h)))))) = False
       \<and> vr_status (fst (verify_otp lib t' ident ch otp'
             (snd (verify_otp lib t ident ch otp
                     (snd (verify_all lib ident ch calls h)))))) = INVALID"
proof -
  let ?key = "get_storage_key ident ch"
  let ?rec = "\<lparr>otp_hash = hash_otp lib code, channel = ch, created_at = now,
               expires_at = now + expiry_minutes h0 * 60000000, attempts = 0,
               verified = False\<rparr>"
  have stored: "otp_store h ?key = Some ?rec"
    and m: "max_attempts h = max_attempts h0"
    using issued generate_returned [OF returned] by simp_all
  have w: "\<forall>c \<in> set calls. fst c \<le> expires_at ?rec \<and> hash_otp lib (snd c) \<noteq> otp_hash ?rec"
    using wrong by simp
  have le: "attempts ?rec + int (length calls) \<le> max_attempts h"
    using n m by simp
  have nv: "\<not> verified ?rec" by simp
  note run = verify_all_wrong [OF stored nv le w]
  let ?h1 = "snd (verify_all lib ident ch calls h)"
  have h1: "?h1 = h\<lparr>otp_store := (otp_store h)(?key \<mapsto> ?rec\<lparr>attempts := max_attempts h0\<rparr>)\<rparr>"
    using run n by simp
  have s1: "map vr_status (fst (verify_all lib ident ch calls h))
           = replicate (length calls) INVALID"
    using run by blast
  have s2: "map vr_remaining_attempts (fst (verify_all lib ident ch calls h))
           = map (\<lambda>k. Some (max_attempts h0 - (1 + int k))) [0..<length calls]"
    using run m by simp
  have s3: "map_option attempts (otp_store ?h1 ?key) = Some (max_attempts h0)"
    by (simp add: h1)
  let ?v = "verify_otp lib t ident ch otp ?h1"
  have s4: "vr_verified (fst ?v) = False"
    and s5: "vr_status (fst ?v)
             = (if t > now + expiry_minutes h0 * 60000000 then EXPIRED
                else MAX_ATTEMPTS_EXCEEDED)"
    and s6: "otp_store (snd ?v) ?key = None"
    by (simp_all add: h1 m verify_otp_def invalidate_otp_def Let_def)
  have s7: "vr_verified (fst (verify_otp lib t' ident ch otp' (snd ?v))) = False"
    and s8: "vr_status (fst (verify_otp lib t' ident ch otp' (snd ?v))) = INVALID"
    using s6 by (simp_all add: verify_otp_def Let_def)
  from s1 s2 s3 s4 s5 s6 s7 s8 show ?thesis by blast
qed

theorem wrong_guesses_exhaust_record_witness:
  "map vr_remaining_attempts
     (fst (verify_all sample_lib ''+905551234567'' SMS
            [(1, ''000000''), (2, ''111111''), (3, ''222222'')]
            (snd (generate_and_send_otp sample_lib ''123456'' 0 None ''+905551234567'' SMS
                    OTPHandler_default))))
     = [Some 2, Some 1, Some 0]
   \<and> vr_status (fst (verify_otp sample_lib 4 ''+905551234567'' SMS ''123456''
        (snd (verify_all sample_lib ''+905551234567'' SMS
               [(1, ''000000''), (2, ''111111''), (3, ''222222'')]
               (snd (generate_and_send_otp sample_lib ''123456'' 0 None ''+905551234567'' SMS
                       OTPHandler_default))))))
       = MAX_ATTEMPTS_EXCEEDED
   \<and> vr_status (fst (verify_otp sample_lib 5 ''+905551234567'' SMS ''123456''
        (snd (verify_otp sample_lib 4 ''+905551234567'' SMS ''123456''
          (snd (verify_all sample_lib ''+905551234567'' SMS
                 [(1, ''000000''), (2, ''111111''), (3, ''222222'')]
                 (snd (generate_and_send_otp sample_lib ''123456'' 0 None ''+905551234567'' SMS
                         OTPHandler_default))))))))
       = INVALID"
proof -
  let ?calls = "[(1::int, ''000000''), (2, ''111111''), (3, ''222222'')]"
  let ?h = "snd (generate_and_send_otp sample_lib ''123456'' 0 None ''+905551234567'' SMS
                   OTPHandler_default)"
  have n: "max_attempts OTPHandler_default = int (length ?calls)"
    by (simp add: OTPHandler_default_def OTPHandler_init_def MAX_VERIFICATION_ATTEMPTS_def)
  have wrong: "\<forall>c \<in> set ?calls. fst c \<le> 0 + expiry_minutes OTPHandler_default * 60000000
                  \<and> hash_otp sample_lib (snd c) \<noteq> hash_otp sample_lib ''123456''"
    by (simp add: OTPHandler_default_def OTPHandler_init_def DEFAULT_EXPIRY_MINUTES_def
        hash_otp_def sample_lib_def)
  obtain res where returned:
    "fst (generate_and_send_otp sample_lib ''123456'' 0 None ''+905551234567'' SMS
            OTPHandler_default) = Inr res"
    by (simp add: otp_eval)
  from wrong_guesses_exhaust_record
         [where t = 4 and otp = "''123456''" and t' = 5 and otp' = "''123456''",
          OF returned refl n wrong]
  show ?thesis
    by (simp add: OTPHandler_default_def OTPHandler_init_def MAX_VERIFICATION_ATTEMPTS_def
        DEFAULT_EXPIRY_MINUTES_def)
qed

text \<open>
  Claim C6, as stated, at a code issued by the default handler and verified
  with the right candidate: the call returns \<open>verified = True\<close> and the record
  is still in the store afterwards, marked verified.
\<close>

theorem verified_record_retained_counterexample:
  "vr_verified (fst (verify_otp sample_lib 1 ''+905551234567'' SMS ''123456''
      (snd (generate_and_send_otp sample_lib ''123456'' 0 None ''+905551234567'' SMS
              OTPHandler_default)))) = True
   \<and> map_option verified
       (otp_store
         (snd (verify_otp sample_lib 1 ''+905551234567'' SMS ''123456''
            (snd (generate_and_send_otp sample_lib ''123456'' 0 None ''+905551234567'' SMS
                    OTPHandler_default))))
         (get_storage_key ''+905551234567'' SMS)) = Some True
   \<and> otp_store
         (snd (verify_otp sample_lib 1 ''+905551234567'' SMS ''123456''
            (snd (generate_and_send_otp sample_lib ''123456'' 0 None ''+905551234567'' SMS
                    OTPHandler_default))))
         (get_storage_key ''+905551234567'' SMS) \<noteq> None"
  by (simp add: otp_eval)

text \<open>
  Claim C6, amended: a \<^verbatim>\<open>verify_otp\<close> call that returns \<open>verified = True\<close> keeps
  the record in the store, with \<open>verified\<close> set and the attempt counted; the
  record cannot be used again, since every later \<^verbatim>\<open>verify_otp\<close> for the key,
  with any candidate at any time, is not verified, answers \<open>INVALID\<close> and
  leaves the store as it is.  \<^verbatim>\<open>resend_otp\<close> removes the verified record: when
  it returns, a new, unverified record is stored under the key, and when it
  raises on the expiry, no record is.
\<close>

theorem verified_record_kept_but_rejected:
  assumes ok: "vr_verified (fst (verify_otp lib now ident ch otp h))"
  shows "(\<exists>rec. otp_store h (get_storage_key ident ch) = Some rec
            \<and> otp_store (snd (verify_otp lib now ident ch otp h))
                 (get_storage_key ident ch)
               = Some (rec\<lparr>attempts := attempts rec + 1, verified := True\<rparr>))
       \<and> vr_verified (fst (verify_otp lib t ident ch otp'
                              (snd (verify_otp lib now ident ch otp h)))) = False
       \<and> vr_status (fst (verify_otp lib t ident ch otp'
                            (snd (verify_otp lib now ident ch otp h)))) = INVALID
       \<and> snd (verify_otp lib t ident ch otp'
                 (snd (verify_otp lib now ident ch otp h)))
           = snd (verify_otp lib now ident ch otp h)
       \<and> (case fst (resend_otp lib code t cb ident ch
                         (snd (verify_otp lib now ident ch otp h))) of
            Inl e \<Rightarrow>
              otp_store (snd (resend_otp lib code t cb ident ch
                                (snd (verify_otp lib now ident ch otp h))))
                (get_storage_key ident ch) = None
          | Inr r \<Rightarrow>
              map_option verified
                (otp_store (snd (resend_otp lib code t cb ident ch
                                   (snd (verify_otp lib now ident ch otp h))))
                   (get_storage_key ident ch)) = Some False)"
proof -
  let ?key = "get_storage_key ident ch"
  let ?h1 = "snd (verify_otp lib now ident ch otp h)"
  from ok obtain rec where rec: "otp_store h ?key = Some rec"
    by (cases "otp_store h ?key") (simp_all add: verify_otp_def Let_def)
  from ok rec have kept: "otp_store ?h1 ?key
      = Some (rec\<lparr>attempts := attempts rec + 1, verified := True\<rparr>)"
    by (simp add: verify_otp_def Let_def split: if_splits)
  have again: "vr_verified (fst (verify_otp lib t ident ch otp' ?h1)) = False"
    "vr_status (fst (verify_otp lib t ident ch otp' ?h1)) = INVALID"
    "snd (verify_otp lib t ident ch otp' ?h1) = ?h1"
    using kept by (simp_all add: verify_otp_def [of _ _ _ _ _ "?h1"] Let_def)
  have reissue: "case fst (resend_otp lib code t cb ident ch ?h1) of
            Inl e \<Rightarrow> otp_store (snd (resend_otp lib code t cb ident ch ?h1)) ?key = None
          | Inr r \<Rightarrow>
              map_option verified
                (otp_store (snd (resend_otp lib code t cb ident ch ?h1)) ?key) = Some False"
  proof (cases "fst (resend_otp lib code t cb ident ch ?h1)")
    case (Inl e)
    then have "snd (resend_otp lib code t cb ident ch ?h1) = invalidate_otp ?key ?h1"
      unfolding resend_otp_def by (rule generate_raised)
    with Inl show ?thesis by (simp add: invalidate_otp_def)
  next
    case (Inr r)
    then have "otp_store (snd (resend_otp lib code t cb ident ch ?h1)) ?key
        = Some \<lparr>otp_hash = hash_otp lib code, channel = ch, created_at = t,
                 expires_at = t + expiry_minutes (invalidate_otp ?key ?h1) * 60000000,
                 attempts = 0, verified = False\<rparr>"
      unfolding resend_otp_def by (simp add: generate_returned)
    with Inr show ?thesis by simp
  qed
  from rec kept again reissue show ?thesis by blast
qed

theorem verified_record_kept_but_rejected_witness:
  "vr_verified (fst (verify_otp sample_lib 1 ''+905551234567'' SMS ''123456''
      (snd (generate_and_send_otp sample_lib ''123456'' 0 None ''+905551234567'' SMS
              OTPHandler_default))))
   \<and> vr_status (fst (verify_otp sample_lib 2 ''+905551234567'' SMS ''123456''
        (snd (verify_otp sample_lib 1 ''+905551234567'' SMS ''123456''
          (snd (generate_and_send_otp sample_lib ''123456'' 0 None ''+905551234567'' SMS
                  OTPHandler_default)))))) = INVALID
   \<and> map_option verified
       (otp_store
          (snd (resend_otp sample_lib ''654321'' 2 None ''+905551234567'' SMS
            (snd (verify_otp sample_lib 1 ''+905551234567'' SMS ''123456''
              (snd (generate_and_send_otp sample_lib ''123456'' 0 None ''+905551234567'' SMS
                      OTPHandler_default))))))
          (get_storage_key ''+905551234567'' SMS)) = Some False"
proof -
  have ok: "vr_verified (fst (verify_otp sample_lib 1 ''+905551234567'' SMS ''123456''
      (snd (generate_and_send_otp sample_lib ''123456'' 0 None ''+905551234567'' SMS
              OTPHandler_default))))"
    by (simp add: otp_eval)
  let ?h1 = "snd (verify_otp sample_lib 1 ''+905551234567'' SMS ''123456''
      (snd (generate_and_send_otp sample_lib ''123456'' 0 None ''+905551234567'' SMS
              OTPHandler_default)))"
  have "add_minutes 2 (expiry_minutes
           (invalidate_otp (get_storage_key ''+905551234567'' SMS) ?h1)) = Inr 300000002"
    by (simp add: otp_eval)
  from generate_returns [OF this] obtain r where sent:
    "fst (resend_otp sample_lib ''654321'' 2 None ''+905551234567'' SMS ?h1) = Inr r"
    unfolding resend_otp_def by blast
  note inst = verified_record_kept_but_rejected
    [where t = 2 and otp' = "''123456''" and code = "''654321''" and cb = None, OF ok]
  from inst have a: "vr_status (fst (verify_otp sample_lib 2 ''+905551234567'' SMS ''123456'' ?h1))
      = INVALID" by blast
  from inst have "case fst (resend_otp sample_lib ''654321'' 2 None ''+905551234567'' SMS ?h1) of
            Inl e \<Rightarrow>
              otp_store (snd (resend_otp sample_lib ''654321'' 2 None ''+905551234567'' SMS ?h1))
                (get_storage_key ''+905551234567'' SMS) = None
          | Inr r \<Rightarrow>
              map_option verified
                (otp_store (snd (resend_otp sample_lib ''654321'' 2 None ''+905551234567'' SMS ?h1))
                   (get_storage_key ''+905551234567'' SMS)) = Some False"
    by blast
  with sent have b: "map_option verified
                (otp_store (snd (resend_otp sample_lib ''654321'' 2 None ''+905551234567'' SMS ?h1))
                   (get_storage_key ''+905551234567'' SMS)) = Some False"
    by simp
  from ok a b show ?thesis by blast
qed

section \<open>Properties of the network identity rotator\<close>

lemma get_proxy_assigned:
  assumes "proxies pm \<noteq> []" and "country_proxy_index pm code = Some i"
    and "i < length (proxies pm)"
  shows "get_proxy_for_country code pm = Inr (Some (proxies pm ! i), pm)"
  using assms by (simp add: get_proxy_for_country_def proxy_at_def)

lemma get_proxy_unassigned:
  assumes "proxies pm \<noteq> []" and "country_proxy_index pm code = None"
  shows "get_proxy_for_country code pm =
          Inr (Some (proxies pm ! (start_offset code mod length (proxies pm))),
               pm\<lparr>country_proxy_index :=
                     (country_proxy_index pm)
                       (code \<mapsto> start_offset code mod length (proxies pm)),
                  used_proxies := (used_proxies pm)(code \<mapsto> [])\<rparr>)"
  using assms by (simp add: get_proxy_for_country_def proxy_at_def Let_def)

lemma rotate_assigned:
  assumes "proxies pm \<noteq> []" and "country_proxy_index pm code = Some i"
    and "i < length (proxies pm)"
  shows "rotate_proxy_for_country code pm =
          Inr (Some (proxies pm ! (Suc i mod length (proxies pm))),
               pm\<lparr>used_proxies :=
                     (used_proxies pm)
                       (code \<mapsto> used_history pm code
                                 @ [Proxy_str (proxies pm ! i)]),
                  country_proxy_index :=
                     (country_proxy_index pm)(code \<mapsto> Suc i mod length (proxies pm))\<rparr>)"
  using assms by (simp add: rotate_proxy_for_country_def proxy_at_def Let_def)

lemma rotations_assigned:
  assumes "proxies pm \<noteq> []" and "country_proxy_index pm code = Some i"
    and "i < length (proxies pm)"
  shows "\<exists>pm'. rotations n code pm
            = Inr (map (\<lambda>j. Some (proxies pm ! ((i + Suc j) mod length (proxies pm)))) [0..<n], pm')
          \<and> proxies pm' = proxies pm
          \<and> country_proxy_index pm' code = Some ((i + n) mod length (proxies pm))
          \<and> used_history pm' code
              = used_history pm code
                @ map (\<lambda>j. Proxy_str (proxies pm ! ((i + j) mod length (proxies pm)))) [0..<n]"
  using assms
proof (induction n arbitrary: pm i)
  case 0
  then show ?case by simp
next
  case (Suc n)
  let ?k = "length (proxies pm)"
  let ?i1 = "Suc i mod ?k"
  let ?pm1 = "pm\<lparr>used_proxies :=
                     (used_proxies pm)
                       (code \<mapsto> used_history pm code
                                 @ [Proxy_str (proxies pm ! i)]),
                  country_proxy_index := (country_proxy_index pm)(code \<mapsto> ?i1)\<rparr>"
  have k: "0 < ?k" using Suc.prems(1) by simp
  have step: "rotate_proxy_for_country code pm = Inr (Some (proxies pm ! ?i1), ?pm1)"
    using Suc.prems by (rule rotate_assigned)
  have p1: "proxies ?pm1 \<noteq> []" "country_proxy_index ?pm1 code = Some ?i1"
    "?i1 < length (proxies ?pm1)"
    using Suc.prems(1) k by simp_all
  have p2: "used_history ?pm1 code = used_history pm code @ [Proxy_str (proxies pm ! i)]"
    by (simp add: used_history_def)
  from Suc.IH [OF p1] obtain pm' where
    r: "rotations n code ?pm1
          = Inr (map (\<lambda>j. Some (proxies pm ! ((?i1 + Suc j) mod ?k))) [0..<n], pm')"
    and a: "proxies pm' = proxies pm"
    and b: "country_proxy_index pm' code = Some ((?i1 + n) mod ?k)"
    and c: "used_history pm' code
              = (used_history pm code
                  @ [Proxy_str (proxies pm ! i)])
                @ map (\<lambda>j. Proxy_str (proxies pm ! ((?i1 + j) mod ?k))) [0..<n]"
    unfolding p2 by auto
  have m: "\<And>j. (?i1 + j) mod ?k = (i + Suc j) mod ?k"
    by (metis add_Suc add_Suc_right mod_add_left_eq)
  have i0: "i mod ?k = i" using Suc.prems(3) by simp
  have i1: "?i1 = (i + Suc 0) mod ?k" by simp
  note r' = r [unfolded m]
  note b' = b [unfolded m]
  note c' = c [unfolded m]
  have run: "rotations (Suc n) code pm
      = Inr (Some (proxies pm ! ((i + Suc 0) mod ?k))
             # map (\<lambda>j. Some (proxies pm ! ((i + Suc (Suc j)) mod ?k))) [0..<n], pm')"
    using step r' by (simp only: rotations.simps sum.case prod.case i1)
  have l1: "map (\<lambda>j. Some (proxies pm ! ((i + Suc j) mod ?k))) [0..<Suc n]
      = Some (proxies pm ! ((i + Suc 0) mod ?k))
        # map (\<lambda>j. Some (proxies pm ! ((i + Suc (Suc j)) mod ?k))) [0..<n]"
    by (rule map_upt_Suc)
  have l2: "map (\<lambda>j. Proxy_str (proxies pm ! ((i + j) mod ?k))) [0..<Suc n]
      = Proxy_str (proxies pm ! ((i + 0) mod ?k))
        # map (\<lambda>j. Proxy_str (proxies pm ! ((i + Suc j) mod ?k))) [0..<n]"
    by (rule map_upt_Suc)
  have c'': "used_history pm' code
              = used_history pm code
                @ map (\<lambda>j. Proxy_str (proxies pm ! ((i + j) mod ?k))) [0..<Suc n]"
    unfolding l2 using c' i0 by simp
  show ?case
    unfolding l1 using run a b' c'' by blast
qed

text \<open>
  Claim C8: with a non-empty pool of size \<open>k\<close> that stays fixed, and a tenant
  that either has no index yet or has one inside the pool,
  \<^verbatim>\<open>get_proxy_for_country\<close> returns a proxy, and called again for the same
  tenant it returns the same proxy and changes nothing.  From the index \<open>i\<close>
  so assigned, the \<open>n\<close> rotations that follow return, in order, the proxies at
  \<open>(i + 1) mod k\<close>, ..., \<open>(i + n) mod k\<close>, leave the index at \<open>(i + n) mod k\<close>, and
  append to the tenant's history the texts of the proxies at \<open>i\<close>, ...,
  \<open>(i + n - 1) mod k\<close>, each the proxy in use before that rotation.  After \<open>k\<close>
  rotations \<^verbatim>\<open>get_proxy_for_country\<close> gives the original proxy again.
\<close>

theorem rotation_is_deterministic:
  assumes ne: "proxies pm \<noteq> []"
    and wf: "case country_proxy_index pm code of None \<Rightarrow> True
             | Some i \<Rightarrow> i < length (proxies pm)"
  shows "case get_proxy_for_country code pm of
           Inl e \<Rightarrow> False
         | Inr (r, pm1) \<Rightarrow>
             (case country_proxy_index pm1 code of
                None \<Rightarrow> False
              | Some i \<Rightarrow>
                  i < length (proxies pm) \<and> r = Some (proxies pm ! i)
                  \<and> get_proxy_for_country code pm1 = Inr (r, pm1)
                  \<and> (case rotations n code pm1 of
                        Inl e \<Rightarrow> False
                      | Inr (rs, pm2) \<Rightarrow>
                          rs = map (\<lambda>j. Some (proxies pm ! ((i + Suc j) mod length (proxies pm))))
                                 [0..<n]
                          \<and> proxies pm2 = proxies pm
                          \<and> country_proxy_index pm2 code
                              = Some ((i + n) mod length (proxies pm))
                          \<and> used_history pm2 code
                              = used_history pm1 code
                                @ map (\<lambda>j. Proxy_str
                                             (proxies pm ! ((i + j) mod length (proxies pm))))
                                    [0..<n])
                  \<and> (case rotations (length (proxies pm)) code pm1 of
                        Inl e \<Rightarrow> False
                      | Inr (rs, pm2) \<Rightarrow>
                          get_proxy_for_country code pm2 = Inr (r, pm2)))"
proof -
  let ?k = "length (proxies pm)"
  obtain i pm1 where g: "get_proxy_for_country code pm = Inr (Some (proxies pm ! i), pm1)"
    and p: "proxies pm1 = proxies pm" and ix: "country_proxy_index pm1 code = Some i"
    and lt: "i < ?k"
  proof (cases "country_proxy_index pm code")
    case None
    show ?thesis
      by (rule that [OF get_proxy_unassigned [OF ne None]]) (use ne in simp_all)
  next
    case (Some i)
    with wf have "i < ?k" by simp
    from get_proxy_assigned [OF ne Some this] Some this show ?thesis
      by (intro that [of i pm]) simp_all
  qed
  have ne1: "proxies pm1 \<noteq> []" and lt1: "i < length (proxies pm1)" using ne lt p by simp_all
  have again: "get_proxy_for_country code pm1 = Inr (Some (proxies pm ! i), pm1)"
    using get_proxy_assigned [OF ne1 ix lt1] p by simp
  have rot: "\<And>m. \<exists>pm2. rotations m code pm1
            = Inr (map (\<lambda>j. Some (proxies pm ! ((i + Suc j) mod ?k))) [0..<m], pm2)
          \<and> proxies pm2 = proxies pm
          \<and> country_proxy_index pm2 code = Some ((i + m) mod ?k)
          \<and> used_history pm2 code
              = used_history pm1 code
                @ map (\<lambda>j. Proxy_str (proxies pm ! ((i + j) mod ?k))) [0..<m]"
    using rotations_assigned [OF ne1 ix lt1] p by simp
  from rot [of n] obtain pm2 where n1: "rotations n code pm1
            = Inr (map (\<lambda>j. Some (proxies pm ! ((i + Suc j) mod ?k))) [0..<n], pm2)"
    and n2: "proxies pm2 = proxies pm"
    and n3: "country_proxy_index pm2 code = Some ((i + n) mod ?k)"
    and n4: "used_history pm2 code
              = used_history pm1 code
                @ map (\<lambda>j. Proxy_str (proxies pm ! ((i + j) mod ?k))) [0..<n]"
    by blast
  from rot [of "?k"] obtain rs pm3 where k1: "rotations ?k code pm1 = Inr (rs, pm3)"
    and k2: "proxies pm3 = proxies pm"
    and k3: "country_proxy_index pm3 code = Some ((i + ?k) mod ?k)"
    by blast
  have k3': "country_proxy_index pm3 code = Some i" using k3 lt by simp
  have orig: "get_proxy_for_country code pm3 = Inr (Some (proxies pm ! i), pm3)"
    using get_proxy_assigned [of pm3 code i] ne lt k2 k3' by simp
  show ?thesis
    using g ix lt again n1 n2 n3 n4 k1 orig by simp
qed

lemma sample_manager_pool:
  "proxies sample_manager =
     [\<lparr>host = ''10.0.0.1'', port = 8080, username = ''u1'', password = ''p1''\<rparr>,
      \<lparr>host = ''10.0.0.2'', port = 8081, username = ''u2'', password = ''p2''\<rparr>,
      \<lparr>host = ''10.0.0.3'', port = 8082, username = ''u3'', password = ''p3''\<rparr>]"
  "country_proxy_index sample_manager = Map.empty"
  "used_proxies sample_manager = Map.empty"
  by (simp_all add: sample_manager_def)

lemma sample_manager_str:
  "Proxy_str \<lparr>host = ''10.0.0.2'', port = 8081, username = ''u2'', password = ''p2''\<rparr>
     = ''10.0.0.2:8081''"
  "Proxy_str \<lparr>host = ''10.0.0.3'', port = 8082, username = ''u3'', password = ''p3''\<rparr>
     = ''10.0.0.3:8082''"
  by (simp_all add: Proxy_str_def str_int_def str_nat.simps digit_char_def)

theorem rotation_is_deterministic_witness:
  "case get_proxy_for_country ''dnk'' sample_manager of
     Inl e \<Rightarrow> False
   | Inr (r, pm1) \<Rightarrow>
       r = Some \<lparr>host = ''10.0.0.2'', port = 8081, username = ''u2'', password = ''p2''\<rparr>
       \<and> get_proxy_for_country ''dnk'' pm1 = Inr (r, pm1)
       \<and> (case rotations 2 ''dnk'' pm1 of
             Inl e \<Rightarrow> False
           | Inr (rs, pm2) \<Rightarrow>
               rs = [Some \<lparr>host = ''10.0.0.3'', port = 8082, username = ''u3'', password = ''p3''\<rparr>,
                     Some \<lparr>host = ''10.0.0.1'', port = 8080, username = ''u1'', password = ''p1''\<rparr>]
               \<and> used_history pm2 ''dnk'' = [''10.0.0.2:8081'', ''10.0.0.3:8082''])
       \<and> (case rotations 3 ''dnk'' pm1 of
             Inl e \<Rightarrow> False
           | Inr (rs, pm2) \<Rightarrow> get_proxy_for_country ''dnk'' pm2 = Inr (r, pm2))"
proof -
  let ?p2 = "\<lparr>host = ''10.0.0.2'', port = 8081, username = ''u2'', password = ''p2''\<rparr>"
  let ?sm1 = "sample_manager\<lparr>country_proxy_index := [''dnk'' \<mapsto> 1],
                              used_proxies := [''dnk'' \<mapsto> []]\<rparr>"
  have ne: "proxies sample_manager \<noteq> []" by (simp add: sample_manager_pool)
  have un: "country_proxy_index sample_manager ''dnk'' = None"
    by (simp add: sample_manager_pool)
  have wf: "case country_proxy_index sample_manager ''dnk'' of None \<Rightarrow> True
            | Some i \<Rightarrow> i < length (proxies sample_manager)"
    by (simp add: un)
  have off: "start_offset ''dnk'' mod length (proxies sample_manager) = 1"
    by (simp add: start_offset_def country_codes_def sample_manager_pool)
  have g: "get_proxy_for_country ''dnk'' sample_manager = Inr (Some ?p2, ?sm1)"
    unfolding get_proxy_unassigned [OF ne un] off by (simp add: sample_manager_pool)
  have ix: "country_proxy_index ?sm1 ''dnk'' = Some 1" by simp
  have h0: "used_history ?sm1 ''dnk'' = []" by (simp add: used_history_def)
  have k: "length (proxies sample_manager) = 3" by (simp add: sample_manager_pool)
  have l1: "map (\<lambda>j. Some (proxies sample_manager ! ((1 + Suc j) mod 3))) [0..<2]
      = [Some \<lparr>host = ''10.0.0.3'', port = 8082, username = ''u3'', password = ''p3''\<rparr>,
         Some \<lparr>host = ''10.0.0.1'', port = 8080, username = ''u1'', password = ''p1''\<rparr>]"
    by (simp add: sample_manager_pool numeral_2_eq_2)
  have l2: "map (\<lambda>j. Proxy_str (proxies sample_manager ! ((1 + j) mod 3))) [0..<2]
      = [''10.0.0.2:8081'', ''10.0.0.3:8082'']"
    by (simp add: sample_manager_pool sample_manager_str numeral_2_eq_2)
  note inst = rotation_is_deterministic
    [OF ne wf, of 2, unfolded g k sum.case prod.case ix option.case]
  note part1 = inst [THEN conjunct2, THEN conjunct2, THEN conjunct1]
  note part2 = inst [THEN conjunct2, THEN conjunct2, THEN conjunct2, THEN conjunct1]
  note part3 = inst [THEN conjunct2, THEN conjunct2, THEN conjunct2, THEN conjunct2]
  have two: "case rotations 2 ''dnk'' ?sm1 of
       Inl e \<Rightarrow> False
     | Inr (rs, pm2) \<Rightarrow>
         rs = [Some \<lparr>host = ''10.0.0.3'', port = 8082, username = ''u3'', password = ''p3''\<rparr>,
               Some \<lparr>host = ''10.0.0.1'', port = 8080, username = ''u1'', password = ''p1''\<rparr>]
         \<and> used_history pm2 ''dnk'' = [''10.0.0.2:8081'', ''10.0.0.3:8082'']"
    using part2 unfolding l1 l2 h0
    by (cases "rotations 2 ''dnk'' ?sm1") auto
  show ?thesis
    unfolding g sum.case prod.case
    using part1 two part3 by blast
qed

text \<open>
  Claim C10: for a tenant without an index and a non-empty pool,
  \<^verbatim>\<open>rotate_proxy_for_country\<close> is \<^verbatim>\<open>get_proxy_for_country\<close>: it returns the proxy
  at the tenant's start index, stores that index, and leaves the tenant with an
  empty history.
\<close>

theorem rotate_unassigned_is_first_assignment:
  assumes "proxies pm \<noteq> []" and "country_proxy_index pm code = None"
  shows "rotate_proxy_for_country code pm = get_proxy_for_country code pm
       \<and> rotate_proxy_for_country code pm =
           Inr (Some (proxies pm ! (start_offset code mod length (proxies pm))),
                pm\<lparr>country_proxy_index :=
                      (country_proxy_index pm)
                        (code \<mapsto> start_offset code mod length (proxies pm)),
                   used_proxies := (used_proxies pm)(code \<mapsto> [])\<rparr>)"
  using assms get_proxy_unassigned [OF assms]
  by (simp add: rotate_proxy_for_country_def)

theorem rotate_unassigned_is_first_assignment_witness:
  "rotate_proxy_for_country ''hrv'' sample_manager
     = get_proxy_for_country ''hrv'' sample_manager
   \<and> rotate_proxy_for_country ''hrv'' sample_manager =
       Inr (Some \<lparr>host = ''10.0.0.3'', port = 8082, username = ''u3'', password = ''p3''\<rparr>,
            sample_manager\<lparr>country_proxy_index := [''hrv'' \<mapsto> 2],
                           used_proxies := [''hrv'' \<mapsto> []]\<rparr>)"
proof -
  have ne: "proxies sample_manager \<noteq> []" by (simp add: sample_manager_pool)
  have un: "country_proxy_index sample_manager ''hrv'' = None"
    by (simp add: sample_manager_pool)
  have off: "start_offset ''hrv'' mod length (proxies sample_manager) = 2"
    by (simp add: start_offset_def country_codes_def sample_manager_pool)
  have e: "proxies sample_manager ! 2
      = \<lparr>host = ''10.0.0.3'', port = 8082, username = ''u3'', password = ''p3''\<rparr>"
    by (simp add: sample_manager_pool)
  show ?thesis
    by (rule rotate_unassigned_is_first_assignment
          [OF ne un, unfolded off e sample_manager_pool(2,3)])
qed

lemma add_proxies_readable:
  assumes "\<forall>line \<in> set ls. well_formed_line lib line \<longrightarrow> port_readable lib line"
  shows "add_proxies lib ls pool
         = (True, pool @ map (line_proxy lib) (filter (well_formed_line lib) ls))"
  using assms
proof (induction ls arbitrary: pool)
  case Nil
  show ?case by simp
next
  case (Cons l ls)
  have rest: "\<And>p. add_proxies lib ls p
         = (True, p @ map (line_proxy lib) (filter (well_formed_line lib) ls))"
    using Cons.prems by (intro Cons.IH) simp
  show ?case
  proof (cases "well_formed_line lib l")
    case False
    then have "add_proxies lib (l # ls) pool = add_proxies lib ls pool"
      by (auto simp: well_formed_line_def line_fields_def Let_def)
    with False rest show ?thesis by simp
  next
    case True
    with Cons.prems have "port_readable lib l" by simp
    then obtain n where n: "py_int lib (split_on CHR '':'' (py_strip lib l) ! 1) = Some n"
      by (auto simp: port_readable_def line_fields_def)
    have p: "line_proxy lib l =
        \<lparr>host = split_on CHR '':'' (py_strip lib l) ! 0, port = n,
         username = split_on CHR '':'' (py_strip lib l) ! 2,
         password = split_on CHR '':'' (py_strip lib l) ! 3\<rparr>"
      using n by (simp add: line_proxy_def line_fields_def)
    have "add_proxies lib (l # ls) pool = add_proxies lib ls (pool @ [line_proxy lib l])"
      using True n unfolding p
      by (simp add: well_formed_line_def line_fields_def Let_def)
    with True rest show ?thesis by simp
  qed
qed

text \<open>
  Claim C4, as stated, at a manager that holds three proxies.  A response with
  status 200 and an empty body makes \<^verbatim>\<open>fetch_proxies\<close> return \<open>False\<close> and leaves
  the pool empty, and so does a body that is not a proxy list: the previously
  held pool is gone.
\<close>

theorem fetch_proxies_clears_pool_counterexample:
  "proxies sample_manager \<noteq> []
   \<and> fetch_proxies sample_lib (Response 200 []) sample_manager
       = (False, sample_manager\<lparr>proxies := []\<rparr>)
   \<and> fetch_proxies sample_lib (Response 200 ''no proxies available'') sample_manager
       = (False, sample_manager\<lparr>proxies := []\<rparr>)"
  by (simp add: fetch_proxies_def sample_lib_def sample_manager_def Let_def)

text \<open>
  Claim C4, amended: when the request fails, the HTTP client raising or the
  status not being 200, \<^verbatim>\<open>fetch_proxies\<close> returns \<open>False\<close> and leaves the manager
  untouched.  On a status of 200 the pool held before is discarded before the
  body is read.  When every well-formed line of the body has a port that
  \<^verbatim>\<open>int\<close> accepts, the pool becomes the proxies of the well-formed lines, in
  order, the other lines being skipped, and the call returns \<open>True\<close> exactly
  when there is such a line.  So a body without a well-formed line, and an
  empty body among them, leaves the pool empty and the call returns \<open>False\<close>.
\<close>

theorem fetch_proxies_outcomes:
  "fetch_proxies lib TransportError pm = (False, pm)
   \<and> (status_code \<noteq> 200 \<longrightarrow> fetch_proxies lib (Response status_code body) pm = (False, pm))
   \<and> ((\<forall>line \<in> set (body_lines lib body).
          well_formed_line lib line \<longrightarrow> port_readable lib line) \<longrightarrow>
        fetch_proxies lib (Response 200 body) pm
          = (filter (well_formed_line lib) (body_lines lib body) \<noteq> [],
             pm\<lparr>proxies := map (line_proxy lib)
                               (filter (well_formed_line lib) (body_lines lib body))\<rparr>))
   \<and> ((\<forall>line \<in> set (body_lines lib body). \<not> well_formed_line lib line) \<longrightarrow>
        fetch_proxies lib (Response 200 body) pm = (False, pm\<lparr>proxies := []\<rparr>))
   \<and> (py_strip lib body = [] \<and> py_strip lib [] = [] \<longrightarrow>
        fetch_proxies lib (Response 200 body) pm = (False, pm\<lparr>proxies := []\<rparr>))"
proof -
  have a: "fetch_proxies lib TransportError pm = (False, pm)"
    by (simp add: fetch_proxies_def)
  have b: "status_code \<noteq> 200 \<longrightarrow> fetch_proxies lib (Response status_code body) pm = (False, pm)"
    by (simp add: fetch_proxies_def)
  have c: "fetch_proxies lib (Response 200 body) pm
          = (filter (well_formed_line lib) (body_lines lib body) \<noteq> [],
             pm\<lparr>proxies := map (line_proxy lib)
                               (filter (well_formed_line lib) (body_lines lib body))\<rparr>)"
    if r: "\<forall>line \<in> set (body_lines lib body).
             well_formed_line lib line \<longrightarrow> port_readable lib line"
  proof -
    have "add_proxies lib (body_lines lib body) []
          = (True, [] @ map (line_proxy lib)
                          (filter (well_formed_line lib) (body_lines lib body)))"
      using r by (rule add_proxies_readable)
    then show ?thesis
      by (simp add: fetch_proxies_def body_lines_def Let_def)
  qed
  have d: "fetch_proxies lib (Response 200 body) pm = (False, pm\<lparr>proxies := []\<rparr>)"
    if n: "\<forall>line \<in> set (body_lines lib body). \<not> well_formed_line lib line"
  proof -
    from n have e: "filter (well_formed_line lib) (body_lines lib body) = []"
      by (simp add: filter_empty_conv)
    from n have "\<forall>line \<in> set (body_lines lib body).
             well_formed_line lib line \<longrightarrow> port_readable lib line" by simp
    from c [OF this] show ?thesis by (simp add: e)
  qed
  have e: "fetch_proxies lib (Response 200 body) pm = (False, pm\<lparr>proxies := []\<rparr>)"
    if s: "py_strip lib body = [] \<and> py_strip lib [] = []"
  proof -
    from s have "\<forall>line \<in> set (body_lines lib body). \<not> well_formed_line lib line"
      by (simp add: body_lines_def well_formed_line_def)
    then show ?thesis by (rule d)
  qed
  from a b c d e show ?thesis by blast
qed

theorem fetch_proxies_outcomes_witness:
  "fetch_proxies sample_lib (Response 503 ''Service Unavailable'') sample_manager
     = (False, sample_manager)
   \<and> fetch_proxies sample_lib
       (Response 200
          (''10.9.9.9:3128:user:pw'' @ [CHR 0x0A] @ ''# list'' @ [CHR 0x0A]
           @ ''10.9.9.8:3129:user2:pw2''))
       sample_manager
     = (True, sample_manager\<lparr>proxies :=
          [\<lparr>host = ''10.9.9.9'', port = 3128, username = ''user'', password = ''pw''\<rparr>,
           \<lparr>host = ''10.9.9.8'', port = 3129, username = ''user2'', password = ''pw2''\<rparr>]\<rparr>)
   \<and> fetch_proxies sample_lib (Response 200 ''no proxies available'') sample_manager
     = (False, sample_manager\<lparr>proxies := []\<rparr>)
   \<and> fetch_proxies sample_lib (Response 200 []) sample_manager
     = (False, sample_manager\<lparr>proxies := []\<rparr>)"
proof -
  let ?good = "''10.9.9.9:3128:user:pw'' @ [CHR 0x0A] @ ''# list'' @ [CHR 0x0A]
           @ ''10.9.9.8:3129:user2:pw2''"
  note ev = body_lines_def well_formed_line_def port_readable_def line_proxy_def
    line_fields_def sample_lib_def
  have h1: "(503::int) \<noteq> 200" by simp
  have h2: "\<forall>line \<in> set (body_lines sample_lib ?good).
              well_formed_line sample_lib line \<longrightarrow> port_readable sample_lib line"
    by (simp add: ev)
  have h3: "\<forall>line \<in> set (body_lines sample_lib ''no proxies available'').
              \<not> well_formed_line sample_lib line"
    by (simp add: ev)
  have h4: "py_strip sample_lib [] = [] \<and> py_strip sample_lib [] = []"
    by (simp add: sample_lib_def)
  have v: "filter (well_formed_line sample_lib) (body_lines sample_lib ?good)
      = [''10.9.9.9:3128:user:pw'', ''10.9.9.8:3129:user2:pw2'']"
    by (simp add: ev)
  have p: "map (line_proxy sample_lib) [''10.9.9.9:3128:user:pw'', ''10.9.9.8:3129:user2:pw2'']
      = [\<lparr>host = ''10.9.9.9'', port = 3128, username = ''user'', password = ''pw''\<rparr>,
         \<lparr>host = ''10.9.9.8'', port = 3129, username = ''user2'', password = ''pw2''\<rparr>]"
    by (simp add: ev)
  from fetch_proxies_outcomes
         [of sample_lib sample_manager 503 "''Service Unavailable''"] h1
  have a: "fetch_proxies sample_lib (Response 503 ''Service Unavailable'') sample_manager
     = (False, sample_manager)" by blast
  from fetch_proxies_outcomes [of sample_lib sample_manager 200 ?good] h2
  have "fetch_proxies sample_lib (Response 200 ?good) sample_manager
          = (filter (well_formed_line sample_lib) (body_lines sample_lib ?good) \<noteq> [],
             sample_manager\<lparr>proxies := map (line_proxy sample_lib)
                (filter (well_formed_line sample_lib) (body_lines sample_lib ?good))\<rparr>)"
    by blast
  then have b: "fetch_proxies sample_lib (Response 200 ?good) sample_manager
     = (True, sample_manager\<lparr>proxies :=
          [\<lparr>host = ''10.9.9.9'', port = 3128, username = ''user'', password = ''pw''\<rparr>,
           \<lparr>host = ''10.9.9.8'', port = 3129, username = ''user2'', password = ''pw2''\<rparr>]\<rparr>)"
    unfolding v p by simp
  from fetch_proxies_outcomes [of sample_lib sample_manager 200 "''no proxies available''"] h3
  have c: "fetch_proxies sample_lib (Response 200 ''no proxies available'') sample_manager
     = (False, sample_manager\<lparr>proxies := []\<rparr>)" by blast
  from fetch_proxies_outcomes [of sample_lib sample_manager 200 "[]"] h4
  have d: "fetch_proxies sample_lib (Response 200 []) sample_manager
     = (False, sample_manager\<lparr>proxies := []\<rparr>)" by blast
  from a b c d show ?thesis by blast
qed

section \<open>Properties of the availability evaluator\<close>

lemma date_slot_of_cases:
  "date_slot_of lib el = []
   \<or> (\<exists>ds. date_slot_of lib el =
          [\<lparr>date = ds,
            day_name = (case strptime_weekday lib ds of
                          None \<Rightarrow> []
                        | Some wd \<Rightarrow>
                            (case map_of DAY_NAMES_TR wd of None \<Rightarrow> [] | Some n \<Rightarrow> n)),
            slots = [], is_preferred = False\<rparr>])"
proof (cases el)
  case Detached
  then show ?thesis by (simp add: date_slot_of_def)
next
  case (DayElement date_attr date_text)
  define stripped where
    "stripped = (case date_text of None \<Rightarrow> [] | Some t \<Rightarrow> if t = [] then [] else py_strip lib t)"
  define date_str where
    "date_str = (case date_attr of None \<Rightarrow> stripped | Some a \<Rightarrow> if a = [] then stripped else a)"
  have eq: "date_slot_of lib el =
      (if date_str = [] then []
       else [\<lparr>date = date_str,
              day_name = (case strptime_weekday lib date_str of
                            None \<Rightarrow> []
                          | Some wd \<Rightarrow>
                              (case map_of DAY_NAMES_TR wd of None \<Rightarrow> [] | Some n \<Rightarrow> n)),
              slots = [], is_preferred = False\<rparr>])"
    unfolding date_slot_of_def DayElement date_str_def stripped_def
    by (simp only: day_element.case Let_def)
  show ?thesis
  proof (cases "date_str = []")
    case True
    with eq show ?thesis by simp
  next
    case False
    with eq show ?thesis by (intro disjI2 exI [of _ date_str]) simp
  qed
qed

lemma day_name_of_slot:
  assumes "d \<in> set (collect_available_dates lib page)"
  shows "day_name d =
          (case strptime_weekday lib (date d) of
             None \<Rightarrow> []
           | Some wd \<Rightarrow> (case map_of DAY_NAMES_TR wd of None \<Rightarrow> [] | Some n \<Rightarrow> n))"
proof -
  from assms obtain el where "d \<in> set (date_slot_of lib el)"
    by (cases "available_days page") (auto simp: collect_available_dates_def)
  with date_slot_of_cases [of lib el] show ?thesis
    by (elim disjE exE) simp_all
qed

lemma day_names_tr_values:
  "map_of DAY_NAMES_TR wd = Some n \<Longrightarrow>
     n \<in> {''Pazartesi'', ''Sal'' @ [CHR 0xC4, CHR 0xB1],
           [CHR 0xC3, CHR 0x87] @ ''ar'' @ [CHR 0xC5, CHR 0x9F] @ ''amba'',
           ''Per'' @ [CHR 0xC5, CHR 0x9F] @ ''embe'', ''Cuma'', ''Cumartesi'', ''Pazar''}"
  by (auto simp: DAY_NAMES_TR_def split: if_splits)

lemma day_name_not_english:
  assumes "d \<in> set (collect_available_dates lib page)"
  shows "day_name d \<noteq> ''Friday''"
proof (cases "strptime_weekday lib (date d)")
  case None
  then show ?thesis using day_name_of_slot [OF assms] by simp
next
  case (Some wd)
  show ?thesis
  proof (cases "map_of DAY_NAMES_TR wd")
    case None
    then show ?thesis using Some day_name_of_slot [OF assms] by simp
  next
    case (Some n)
    from day_names_tr_values [OF Some] have "n \<noteq> ''Friday''" by auto
    then show ?thesis using \<open>strptime_weekday lib (date d) = Some wd\<close> Some
        day_name_of_slot [OF assms] by simp
  qed
qed

lemma day_name_cuma:
  assumes "d \<in> set (collect_available_dates lib page)"
  shows "(day_name d = ''Cuma'') = (strptime_weekday lib (date d) = Some 4)"
proof (cases "strptime_weekday lib (date d)")
  case None
  then show ?thesis using day_name_of_slot [OF assms] by simp
next
  case (Some wd)
  have "(case map_of DAY_NAMES_TR wd of None \<Rightarrow> [] | Some n \<Rightarrow> n) = ''Cuma'' \<longleftrightarrow> wd = 4"
    by (simp add: DAY_NAMES_TR_def)
  then show ?thesis using Some day_name_of_slot [OF assms] by simp
qed

lemma checked_slot:
  assumes "d \<in> set (available_dates (fst (check lib now page loc cat ac)))"
  obtains d0 where "d0 \<in> set (collect_available_dates lib page)"
    and "d = d0\<lparr>is_preferred := is_preferred_date ac d0\<rparr>"
  using assms by (auto simp: check_def Let_def split: if_splits)

text \<open>
  The day name of a slot is one of the Turkish names of \<^verbatim>\<open>DAY_NAMES_TR\<close> or
  empty, never \<^verbatim>\<open>"Friday"\<close>.  So with the preferred days \<^verbatim>\<open>["Friday"]\<close> and no
  preferred dates no slot is marked, the slots that fall on a Friday included;
  with \<^verbatim>\<open>["Cuma"]\<close> the slots marked are exactly those whose date is a Friday.
\<close>

lemma friday_label_marks_no_slot:
  assumes "preferred_dates ac = []" and "preferred_days ac = [''Friday'']"
    and "d \<in> set (available_dates (fst (check lib now page loc cat ac)))"
  shows "\<not> is_preferred d"
proof -
  from assms(3) obtain d0 where d0: "d0 \<in> set (collect_available_dates lib page)"
    and d: "d = d0\<lparr>is_preferred := is_preferred_date ac d0\<rparr>"
    by (rule checked_slot)
  from day_name_not_english [OF d0] show ?thesis
    using assms(1,2) d by (simp add: is_preferred_date_def)
qed

lemma cuma_label_marks_fridays:
  assumes "preferred_dates ac = []" and "preferred_days ac = [''Cuma'']"
    and "d \<in> set (available_dates (fst (check lib now page loc cat ac)))"
  shows "is_preferred d = (strptime_weekday lib (date d) = Some 4)"
proof -
  from assms(3) obtain d0 where d0: "d0 \<in> set (collect_available_dates lib page)"
    and d: "d = d0\<lparr>is_preferred := is_preferred_date ac d0\<rparr>"
    by (rule checked_slot)
  from day_name_cuma [OF d0] show ?thesis
    using assms(1,2) d by (simp add: is_preferred_date_def)
qed

lemmas availability_eval =
  check_def check_no_availability_def collect_available_dates_def date_slot_of_def
  is_preferred_date_def AvailabilityChecker_init_def sample_page_def sample_lib_def
  no_texts_def DAY_NAMES_TR_def Let_def

text \<open>
  Claim C9, as stated, at a page with a Friday, a Saturday and a Monday and the
  preferred days \<^verbatim>\<open>["Friday"]\<close>: the slot of Friday 2025-01-03 carries the day
  name \<^verbatim>\<open>"Cuma"\<close> and is not marked preferred, and neither is any other slot.
  The claim says that the slots falling on Friday are the ones marked.
\<close>

theorem friday_slot_not_marked_counterexample:
  "strptime_weekday sample_lib ''2025-01-03'' = Some 4
   \<and> map (\<lambda>d. (date d, day_name d, is_preferred d))
       (available_dates (fst (check sample_lib 0 sample_page ''Ankara'' ''Tourism''
                                (AvailabilityChecker_init None (Some [''Friday''])))))
       = [(''2025-01-03'', ''Cuma'', False), (''2025-01-04'', ''Cumartesi'', False),
          (''2025-01-06'', ''Pazartesi'', False)]"
  by (simp add: availability_eval)

text \<open>
  Claim C9, amended: with no preferred dates and no preferred days, every slot
  that \<^verbatim>\<open>check\<close> produces is marked preferred.  The day names compared with the
  preferred days are the Turkish ones of \<^verbatim>\<open>DAY_NAMES_TR\<close>: with no preferred dates
  and the preferred days \<^verbatim>\<open>["Cuma"]\<close>, a produced slot is marked preferred
  exactly when its date falls on a Friday (\<^verbatim>\<open>weekday()\<close> is 4); with the
  preferred days \<^verbatim>\<open>["Friday"]\<close>, no produced slot is marked preferred.
\<close>

theorem preferred_marking:
  "(preferred_dates ac = [] \<and> preferred_days ac = [] \<longrightarrow>
      (\<forall>d \<in> set (available_dates (fst (check lib now page loc cat ac))). is_preferred d))
   \<and> (preferred_dates ac = [] \<and> preferred_days ac = [''Cuma''] \<longrightarrow>
      (\<forall>d \<in> set (available_dates (fst (check lib now page loc cat ac))).
         is_preferred d = (strptime_weekday lib (date d) = Some 4)))
   \<and> (preferred_dates ac = [] \<and> preferred_days ac = [''Friday''] \<longrightarrow>
      (\<forall>d \<in> set (available_dates (fst (check lib now page loc cat ac))).
         \<not> is_preferred d))"
proof (intro conjI impI ballI)
  fix d
  assume "preferred_dates ac = [] \<and> preferred_days ac = []"
    and "d \<in> set (available_dates (fst (check lib now page loc cat ac)))"
  then show "is_preferred d"
    by (auto simp: check_def Let_def is_preferred_date_def split: if_splits)
next
  fix d
  assume "preferred_dates ac = [] \<and> preferred_days ac = [''Cuma'']"
    and "d \<in> set (available_dates (fst (check lib now page loc cat ac)))"
  then show "is_preferred d = (strptime_weekday lib (date d) = Some 4)"
    using cuma_label_marks_fridays [of ac d lib now page loc cat] by blast
next
  fix d
  assume "preferred_dates ac = [] \<and> preferred_days ac = [''Friday'']"
    and "d \<in> set (available_dates (fst (check lib now page loc cat ac)))"
  then show "\<not> is_preferred d"
    using friday_label_marks_no_slot [of ac d lib now page loc cat] by blast
qed

theorem preferred_marking_witness:
  "map (\<lambda>d. (date d, strptime_weekday sample_lib (date d), is_preferred d))
     (available_dates (fst (check sample_lib 0 sample_page ''Ankara'' ''Tourism''
                              (AvailabilityChecker_init None None))))
     = [(''2025-01-03'', Some 4, True), (''2025-01-04'', Some 5, True),
        (''2025-01-06'', Some 0, True)]
   \<and> list_all is_preferred
       (available_dates (fst (check sample_lib 0 sample_page ''Ankara'' ''Tourism''
                                (AvailabilityChecker_init None None))))
   \<and> map (\<lambda>d. (date d, strptime_weekday sample_lib (date d), is_preferred d))
       (available_dates (fst (check sample_lib 0 sample_page ''Ankara'' ''Tourism''
                                (AvailabilityChecker_init None (Some [''Cuma''])))))
       = [(''2025-01-03'', Some 4, True), (''2025-01-04'', Some 5, False),
          (''2025-01-06'', Some 0, False)]
   \<and> list_all (\<lambda>d. is_preferred d = (strptime_weekday sample_lib (date d) = Some 4))
       (available_dates (fst (check sample_lib 0 sample_page ''Ankara'' ''Tourism''
                                (AvailabilityChecker_init None (Some [''Cuma''])))))
   \<and> list_all (\<lambda>d. \<not> is_preferred d)
       (available_dates (fst (check sample_lib 0 sample_page ''Ankara'' ''Tourism''
                                (AvailabilityChecker_init None (Some [''Friday''])))))"
proof -
  let ?none = "AvailabilityChecker_init None None"
  let ?cuma = "AvailabilityChecker_init None (Some [''Cuma''])"
  let ?fri = "AvailabilityChecker_init None (Some [''Friday''])"
  have h1: "preferred_dates ?none = [] \<and> preferred_days ?none = []"
    by (simp add: AvailabilityChecker_init_def)
  have h2: "preferred_dates ?cuma = [] \<and> preferred_days ?cuma = [''Cuma'']"
    by (simp add: AvailabilityChecker_init_def)
  have h3: "preferred_dates ?fri = [] \<and> preferred_days ?fri = [''Friday'']"
    by (simp add: AvailabilityChecker_init_def)
  from preferred_marking [of ?none sample_lib 0 sample_page "''Ankara''" "''Tourism''"] h1
  have a: "list_all is_preferred
     (available_dates (fst (check sample_lib 0 sample_page ''Ankara'' ''Tourism'' ?none)))"
    unfolding list_all_iff by blast
  from preferred_marking [of ?cuma sample_lib 0 sample_page "''Ankara''" "''Tourism''"] h2
  have b: "list_all (\<lambda>d. is_preferred d = (strptime_weekday sample_lib (date d) = Some 4))
     (available_dates (fst (check sample_lib 0 sample_page ''Ankara'' ''Tourism'' ?cuma)))"
    unfolding list_all_iff by blast
  from preferred_marking [of ?fri sample_lib 0 sample_page "''Ankara''" "''Tourism''"] h3
  have c: "list_all (\<lambda>d. \<not> is_preferred d)
     (available_dates (fst (check sample_lib 0 sample_page ''Ankara'' ''Tourism'' ?fri)))"
    unfolding list_all_iff by blast
  have d: "map (\<lambda>d. (date d, strptime_weekday sample_lib (date d), is_preferred d))
     (available_dates (fst (check sample_lib 0 sample_page ''Ankara'' ''Tourism'' ?none)))
     = [(''2025-01-03'', Some 4, True), (''2025-01-04'', Some 5, True),
        (''2025-01-06'', Some 0, True)]"
    by (simp add: availability_eval)
  have e: "map (\<lambda>d. (date d, strptime_weekday sample_lib (date d), is_preferred d))
     (available_dates (fst (check sample_lib 0 sample_page ''Ankara'' ''Tourism'' ?cuma)))
     = [(''2025-01-03'', Some 4, True), (''2025-01-04'', Some 5, False),
        (''2025-01-06'', Some 0, False)]"
    by (simp add: availability_eval)
  from a b c d e show ?thesis by blast
qed

end
